theory Spec2Isabelle
  imports Complex_Main
begin

section \<open>Floating-point values as the strategies see them\<close>

text \<open>
  The strategies compute on numpy \<open>float64\<close> values. Division by zero does not raise
  there: it yields an infinity or NaN, and every ordering comparison with NaN is false.
  The model keeps exactly that: a value is a finite real, one of the two infinities, or
  NaN. Rounding, overflow and the sign of zero are not modelled (a zero divisor counts
  as \<open>+0\<close>): sums and products are exact where the program rounds them to the nearest
  \<open>float64\<close>. Rounding to nearest is monotone, so it keeps \<open>\<le>\<close> between a price and its
  product with a constant, but it can turn \<open><\<close> into \<open>=\<close>; what is proved about the order
  of such values is therefore stated with \<open>\<le>\<close>.
\<close>

datatype fl = Fin real | PInf | NInf | NaN

fun fneg :: "fl \<Rightarrow> fl" where
  "fneg (Fin a) = Fin (- a)"
| "fneg PInf = NInf"
| "fneg NInf = PInf"
| "fneg NaN = NaN"

text \<open>The infinity with the sign of \<open>s\<close>; NaN when \<open>s\<close> is zero.\<close>

definition finf :: "real \<Rightarrow> fl" where
  "finf s = (if 0 < s then PInf else if s < 0 then NInf else NaN)"

fun fsign :: "fl \<Rightarrow> real" where
  "fsign (Fin a) = sgn a"
| "fsign PInf = 1"
| "fsign NInf = - 1"
| "fsign NaN = 0"

fun fadd :: "fl \<Rightarrow> fl \<Rightarrow> fl" where
  "fadd (Fin a) (Fin b) = Fin (a + b)"
| "fadd NaN y = NaN"
| "fadd x NaN = NaN"
| "fadd PInf NInf = NaN"
| "fadd NInf PInf = NaN"
| "fadd PInf y = PInf"
| "fadd x PInf = PInf"
| "fadd NInf y = NInf"
| "fadd x NInf = NInf"

definition fsub :: "fl \<Rightarrow> fl \<Rightarrow> fl" where
  "fsub x y = fadd x (fneg y)"

fun fmul :: "fl \<Rightarrow> fl \<Rightarrow> fl" where
  "fmul (Fin a) (Fin b) = Fin (a * b)"
| "fmul NaN y = NaN"
| "fmul x NaN = NaN"
| "fmul x y = finf (fsign x * fsign y)"

fun fdiv :: "fl \<Rightarrow> fl \<Rightarrow> fl" where
  "fdiv (Fin a) (Fin b) = (if b = 0 then finf a else Fin (a / b))"
| "fdiv NaN y = NaN"
| "fdiv x NaN = NaN"
| "fdiv (Fin a) y = Fin 0"
| "fdiv PInf (Fin b) = (if b < 0 then NInf else PInf)"
| "fdiv NInf (Fin b) = (if b < 0 then PInf else NInf)"
| "fdiv x y = NaN"

fun flt :: "fl \<Rightarrow> fl \<Rightarrow> bool" where
  "flt (Fin a) (Fin b) = (a < b)"
| "flt NaN y = False"
| "flt x NaN = False"
| "flt NInf NInf = False"
| "flt NInf y = True"
| "flt PInf y = False"
| "flt (Fin a) PInf = True"
| "flt (Fin a) NInf = False"

definition fgt :: "fl \<Rightarrow> fl \<Rightarrow> bool" where
  "fgt x y = flt y x"

primrec fsum :: "fl list \<Rightarrow> fl" where
  "fsum [] = Fin 0"
| "fsum (x # xs) = fadd x (fsum xs)"


section \<open>The pandas operations the strategies use\<close>

text \<open>
  A column of the frame is a list, oldest row first. Each operation below is the value
  at the last row of the pandas expression named in its comment; the caller has checked
  that the frame is not empty (\<open>.iloc[-1]\<close> raises IndexError on an empty column).
\<close>

datatype pyerror = IndexError | ValueError

text \<open>\<open>data.tail(n)\<close>: the last \<open>n\<close> rows, all of them when there are fewer.\<close>

definition tail :: "nat \<Rightarrow> 'a list \<Rightarrow> 'a list" where
  "tail n xs = drop (length xs - n) xs"

text \<open>
  \<open>col.rolling(window=w).mean().iloc[-1]\<close>: NaN until \<open>w\<close> rows are there
  (\<open>min_periods\<close> defaults to the window), and NaN when the window holds a NaN.
\<close>

definition rolling_mean :: "nat \<Rightarrow> fl list \<Rightarrow> fl" where
  "rolling_mean w xs =
     (if length xs < w then NaN else fdiv (fsum (tail w xs)) (Fin (real w)))"

text \<open>\<open>col.rolling(window=w).max().iloc[-1]\<close> and \<open>.min()\<close>, on a column of finite values.\<close>

definition rolling_max :: "nat \<Rightarrow> real list \<Rightarrow> fl" where
  "rolling_max w xs = (if length xs < w then NaN else Fin (Max (set (tail w xs))))"

definition rolling_min :: "nat \<Rightarrow> real list \<Rightarrow> fl" where
  "rolling_min w xs = (if length xs < w then NaN else Fin (Min (set (tail w xs))))"

text \<open>\<open>col.rolling(window=w).std().iloc[-1]\<close>: the sample standard deviation (ddof = 1).\<close>

definition rolling_std :: "nat \<Rightarrow> real list \<Rightarrow> fl" where
  "rolling_std w xs =
     (if length xs < w then NaN
      else let win = tail w xs; m = sum_list win / real w
           in Fin (sqrt (sum_list (map (\<lambda>x. (x - m)\<^sup>2) win) / real (w - 1))))"

text \<open>\<open>col.diff()\<close>: the first row is NaN.\<close>

fun diff :: "real list \<Rightarrow> fl list" where
  "diff [] = []"
| "diff (x # xs) = NaN # map2 (\<lambda>a b. Fin (b - a)) (x # xs) xs"

text \<open>
  The RSI both the momentum and the mean-reversion strategy compute:
  \<^verbatim>\<open>
  delta = data['close'].diff()
  gain = (delta.where(delta > 0, 0)).rolling(window=w).mean()
  loss = (-delta.where(delta < 0, 0)).rolling(window=w).mean()
  rs = gain / loss
  rsi = 100 - (100 / (1 + rs))
  \<close>
\<close>

definition rsi_last :: "nat \<Rightarrow> real list \<Rightarrow> fl" where
  "rsi_last w closes =
     (let delta = diff closes;
          gain = rolling_mean w (map (\<lambda>d. if fgt d (Fin 0) then d else Fin 0) delta);
          loss = rolling_mean w (map (\<lambda>d. fneg (if flt d (Fin 0) then d else Fin 0)) delta);
          rs = fdiv gain loss
      in fsub (Fin 100) (fdiv (Fin 100) (fadd (Fin 1) rs)))"

text \<open>
  \<open>col.ewm(span=s).mean().iloc[-1]\<close> (adjust=True): the weighted mean with weights
  \<open>(1 - \<alpha>)^i\<close>, \<open>\<alpha> = 2 / (s + 1)\<close>, accumulated as numerator and denominator.
\<close>

definition ewm_step :: "real \<Rightarrow> real \<times> real \<Rightarrow> real \<Rightarrow> real \<times> real" where
  "ewm_step \<alpha> nd x = (x + (1 - \<alpha>) * fst nd, 1 + (1 - \<alpha>) * snd nd)"

definition ewm_mean :: "real \<Rightarrow> real list \<Rightarrow> fl" where
  "ewm_mean sp xs =
     (let nd = foldl (ewm_step (2 / (sp + 1))) (0, 0) xs
      in fdiv (Fin (fst nd)) (Fin (snd nd)))"

text \<open>\<open>col.pct_change(k).iloc[-1]\<close>: \<open>col / col.shift(k) - 1\<close>, NaN in the first \<open>k\<close> rows.\<close>

definition pct_change :: "nat \<Rightarrow> real list \<Rightarrow> fl" where
  "pct_change k xs =
     (if length xs \<le> k then NaN
      else fsub (fdiv (Fin (last xs)) (Fin (xs ! (length xs - 1 - k)))) (Fin 1))"


section \<open>Data model\<close>

record bar =
  date :: int
  open_price :: real
  high :: real
  low :: real
  close :: real
  volume :: real

type_synonym market_data = "string \<rightharpoonup> real"

datatype signal_type = BUY | SELL | HOLD

text \<open>
  A reason is a plain string, or an f-string that formats numbers: its template and the
  values formatted into it.
\<close>

datatype reason = Plain string | Formatted string "fl list"

record momentum_indicators =
  m_rsi :: fl
  m_resistance :: fl
  m_support :: fl
  m_volume_ratio :: fl
  m_price :: real

record grid_indicators =
  g_range_high :: fl
  g_range_low :: fl
  g_range_middle :: fl
  g_price :: real

record arbitrage_indicators =
  a_spread :: fl
  a_price :: real

record fibonacci_indicators =
  f_at_fib_level :: bool
  f_fib_level :: "real option"
  f_trend :: string
  f_fib_levels :: "(real \<times> real) list"
  f_price :: real

record mean_reversion_indicators =
  r_bb_upper :: fl
  r_bb_middle :: fl
  r_bb_lower :: fl
  r_rsi :: fl
  r_price :: real

record scalping_indicators =
  s_ema_fast :: fl
  s_ema_slow :: fl
  s_momentum :: fl
  s_price :: real

record news_indicators =
  n_volume_ratio :: fl
  n_price_change :: fl
  n_price :: real

text \<open>The \<open>indicators\<close> dictionary of a signal: empty, or the dictionary one strategy builds.\<close>

datatype indicators =
    No_indicators
  | Momentum_indicators momentum_indicators
  | Grid_indicators grid_indicators
  | Arbitrage_indicators arbitrage_indicators
  | Fibonacci_indicators fibonacci_indicators
  | Mean_reversion_indicators mean_reversion_indicators
  | Scalping_indicators scalping_indicators
  | News_indicators news_indicators
  | Pattern_indicators real

text \<open>\<open>TradingSignal\<close>; \<open>timestamp\<close> is \<open>datetime.now()\<close>, passed in as \<open>now\<close>.\<close>

record signal =
  signal_type :: signal_type
  symbol :: string
  confidence :: real
  entry_price :: real
  stop_loss :: real
  take_profit :: real
  position_size :: real
  timestamp :: nat
  reason :: reason
  indicators :: indicators

text \<open>\<open>str(e)\<close> of the exception pandas raises for \<open>.iloc[-1]\<close> on an empty column.\<close>

fun error_message :: "pyerror \<Rightarrow> string" where
  "error_message IndexError = ''single positional indexer is out-of-bounds''"
| "error_message ValueError = ''All arrays must be of the same length''"

text \<open>\<open>_create_hold_signal\<close> of the momentum and the mean-reversion strategy (the same code).\<close>

definition create_hold_signal :: "nat \<Rightarrow> string \<Rightarrow> real \<Rightarrow> reason \<Rightarrow> indicators \<Rightarrow> signal" where
  "create_hold_signal now smb price rsn inds =
     \<lparr>signal_type = HOLD, symbol = smb, confidence = 0, entry_price = price,
      stop_loss = 0, take_profit = 0, position_size = 0, timestamp = now,
      reason = rsn, indicators = inds\<rparr>"

text \<open>\<open>_create_error_signal\<close> of the Fibonacci and the pattern-recognition strategy.\<close>

definition create_error_signal :: "nat \<Rightarrow> string \<Rightarrow> string \<Rightarrow> signal" where
  "create_error_signal now smb err =
     \<lparr>signal_type = HOLD, symbol = smb, confidence = 0, entry_price = 0,
      stop_loss = 0, take_profit = 0, position_size = 0, timestamp = now,
      reason = Plain (''Error: '' @ err), indicators = No_indicators\<rparr>"

text \<open>
  The signal the bare \<open>except:\<close> of the grid, arbitrage, scalping and news strategies
  returns.
\<close>

definition bare_error_signal :: "nat \<Rightarrow> string \<Rightarrow> signal" where
  "bare_error_signal now smb =
     \<lparr>signal_type = HOLD, symbol = smb, confidence = 0, entry_price = 0,
      stop_loss = 0, take_profit = 0, position_size = 0, timestamp = now,
      reason = Plain ''Error'', indicators = No_indicators\<rparr>"


section \<open>Momentum strategy (bots/momentum\_bot.py)\<close>

abbreviation (input) momentum_breakout_period :: nat where "momentum_breakout_period \<equiv> 20"
abbreviation (input) momentum_volume_threshold :: real where "momentum_volume_threshold \<equiv> 1.5"
abbreviation (input) momentum_min_confidence :: real where "momentum_min_confidence \<equiv> 0.65"
abbreviation (input) momentum_rsi_oversold :: real where "momentum_rsi_oversold \<equiv> 30"
abbreviation (input) momentum_rsi_overbought :: real where "momentum_rsi_overbought \<equiv> 70"

definition momentum_calculate_indicators :: "bar list \<Rightarrow> pyerror + momentum_indicators" where
  "momentum_calculate_indicators data =
     (if data = [] then Inl IndexError
      else let period = momentum_breakout_period;
               rsi = rsi_last 14 (map close data);
               resistance = rolling_max period (map high data);
               support = rolling_min period (map low data);
               avg_volume = rolling_mean 20 (map (\<lambda>b. Fin (volume b)) data);
               current_volume = volume (last data);
               volume_ratio = (if fgt avg_volume (Fin 0)
                               then fdiv (Fin current_volume) avg_volume else Fin 1)
           in Inr \<lparr>m_rsi = rsi, m_resistance = resistance, m_support = support,
                   m_volume_ratio = volume_ratio, m_price = close (last data)\<rparr>)"

text \<open>
  Stop and target as fractions of the entry price. Here, and in the \<open>get_risk_parameters\<close>
  of the other strategies, the products are exact reals.
\<close>

definition momentum_get_risk_parameters :: "string \<Rightarrow> real \<Rightarrow> signal_type \<Rightarrow> real \<times> real" where
  "momentum_get_risk_parameters smb entry st =
     (let stop_pct = 0.025; target_pct = 0.05
      in if st = BUY then (entry * (1 - stop_pct), entry * (1 + target_pct))
         else (entry * (1 + stop_pct), entry * (1 - target_pct)))"

text \<open>The body of the \<open>try\<close> block: \<open>Inl\<close> is the exception it raises.\<close>

definition momentum_analyze_try :: "nat \<Rightarrow> string \<Rightarrow> bar list \<Rightarrow> market_data \<Rightarrow> pyerror + signal" where
  "momentum_analyze_try now smb data md =
     (case momentum_calculate_indicators data of
        Inl e \<Rightarrow> Inl e
      | Inr ind \<Rightarrow>
          let latest = last data;
              decision =
                (if fgt (Fin (close latest)) (m_resistance ind) \<and>
                    flt (m_rsi ind) (Fin momentum_rsi_overbought) \<and>
                    fgt (m_volume_ratio ind) (Fin momentum_volume_threshold)
                 then (BUY, 0.75, Formatted ''Bullish breakout above ${resistance:.2f}'' [m_resistance ind])
                 else if flt (Fin (close latest)) (m_support ind) \<and>
                    fgt (m_rsi ind) (Fin momentum_rsi_oversold) \<and>
                    fgt (m_volume_ratio ind) (Fin momentum_volume_threshold)
                 then (SELL, 0.75, Formatted ''Bearish breakdown below ${support:.2f}'' [m_support ind])
                 else (HOLD, 0, Plain ''No momentum signal''));
              st = fst decision; conf = fst (snd decision); rsn = snd (snd decision)
          in if st \<noteq> HOLD
             then let entry = close latest;
                      sl_tp = momentum_get_risk_parameters smb entry st
                  in Inr \<lparr>signal_type = st, symbol = smb, confidence = conf,
                          entry_price = entry, stop_loss = fst sl_tp, take_profit = snd sl_tp,
                          position_size = 0, timestamp = now, reason = rsn,
                          indicators = Momentum_indicators ind\<rparr>
             else Inr (create_hold_signal now smb (close latest) rsn (Momentum_indicators ind)))"

definition momentum_analyze :: "nat \<Rightarrow> string \<Rightarrow> bar list \<Rightarrow> market_data \<Rightarrow> signal" where
  "momentum_analyze now smb data md =
     (case momentum_analyze_try now smb data md of
        Inl e \<Rightarrow> create_hold_signal now smb 0 (Plain (''Error: '' @ error_message e)) No_indicators
      | Inr s \<Rightarrow> s)"

definition momentum_validate_signal :: "signal \<Rightarrow> market_data \<Rightarrow> bool" where
  "momentum_validate_signal s md = (momentum_min_confidence \<le> confidence s)"

definition momentum_calculate_position_size :: "signal \<Rightarrow> real \<Rightarrow> real \<Rightarrow> real" where
  "momentum_calculate_position_size s portfolio_value risk_per_trade =
     (let risk_amount = portfolio_value * risk_per_trade;
          price_risk = \<bar>entry_price s - stop_loss s\<bar>
      in if price_risk = 0 then 0
         else let shares = risk_amount / price_risk
              in min (shares * entry_price s) (portfolio_value * 0.25))"


section \<open>Grid strategy (bots/grid\_trading\_bot.py)\<close>

abbreviation (input) grid_spacing :: real where "grid_spacing \<equiv> 0.02"
abbreviation (input) grid_base_size :: real where "grid_base_size \<equiv> 1000"
abbreviation (input) grid_range_detection_period :: nat where "grid_range_detection_period \<equiv> 50"

definition grid_calculate_indicators :: "bar list \<Rightarrow> pyerror + grid_indicators" where
  "grid_calculate_indicators data =
     (if data = [] then Inl IndexError
      else let period = grid_range_detection_period;
               range_high = rolling_max period (map high data);
               range_low = rolling_min period (map low data);
               range_middle = fdiv (fadd range_high range_low) (Fin 2)
           in Inr \<lparr>g_range_high = range_high, g_range_low = range_low,
                   g_range_middle = range_middle, g_price = close (last data)\<rparr>)"

definition grid_get_risk_parameters :: "string \<Rightarrow> real \<Rightarrow> signal_type \<Rightarrow> real \<times> real" where
  "grid_get_risk_parameters smb entry st =
     (if st = BUY then (entry * (1 - grid_spacing * 2), entry * (1 + grid_spacing))
      else (entry * (1 + grid_spacing * 2), entry * (1 - grid_spacing)))"

definition grid_analyze_try :: "nat \<Rightarrow> string \<Rightarrow> bar list \<Rightarrow> market_data \<Rightarrow> pyerror + signal" where
  "grid_analyze_try now smb data md =
     (case grid_calculate_indicators data of
        Inl e \<Rightarrow> Inl e
      | Inr ind \<Rightarrow>
          let latest = last data;
              current_price = close latest;
              range_size = fsub (g_range_high ind) (g_range_low ind);
              position_in_range = fdiv (fsub (Fin current_price) (g_range_low ind)) range_size;
              decision =
                (if flt position_in_range (Fin 0.3)
                 then (BUY, 0.70, Formatted ''Price in lower 30% of range (${current_price:.2f})'' [Fin current_price])
                 else if fgt position_in_range (Fin 0.7)
                 then (SELL, 0.70, Formatted ''Price in upper 30% of range (${current_price:.2f})'' [Fin current_price])
                 else (HOLD, 0, Plain ''Grid levels maintained''));
              st = fst decision; conf = fst (snd decision); rsn = snd (snd decision)
          in if st \<noteq> HOLD
             then let entry = current_price;
                      sl_tp = grid_get_risk_parameters smb entry st
                  in Inr \<lparr>signal_type = st, symbol = smb, confidence = conf,
                          entry_price = entry, stop_loss = fst sl_tp, take_profit = snd sl_tp,
                          position_size = 0, timestamp = now, reason = rsn,
                          indicators = Grid_indicators ind\<rparr>
             else Inr \<lparr>signal_type = HOLD, symbol = smb, confidence = 0,
                       entry_price = current_price, stop_loss = 0, take_profit = 0,
                       position_size = 0, timestamp = now, reason = rsn,
                       indicators = Grid_indicators ind\<rparr>)"

definition grid_analyze :: "nat \<Rightarrow> string \<Rightarrow> bar list \<Rightarrow> market_data \<Rightarrow> signal" where
  "grid_analyze now smb data md =
     (case grid_analyze_try now smb data md of
        Inl e \<Rightarrow> bare_error_signal now smb
      | Inr s \<Rightarrow> s)"

definition grid_validate_signal :: "signal \<Rightarrow> market_data \<Rightarrow> bool" where
  "grid_validate_signal s md = (0.65 \<le> confidence s)"

text \<open>\<open># Grid trading uses fixed size per level\<close>\<close>

definition grid_calculate_position_size :: "signal \<Rightarrow> real \<Rightarrow> real \<Rightarrow> real" where
  "grid_calculate_position_size s portfolio_value risk_per_trade =
     min grid_base_size (portfolio_value * 0.10)"


section \<open>Arbitrage strategy (bots/crypto\_arbitrage\_bot.py)\<close>

abbreviation (input) arbitrage_min_spread :: real where "arbitrage_min_spread \<equiv> 0.01"
abbreviation (input) arbitrage_max_trade_size :: real where "arbitrage_max_trade_size \<equiv> 50000"

definition arbitrage_calculate_indicators :: "bar list \<Rightarrow> pyerror + arbitrage_indicators" where
  "arbitrage_calculate_indicators data =
     (if data = [] then Inl IndexError
      else let high_low_spread =
                 fdiv (Fin (high (last data) - low (last data))) (Fin (close (last data)))
           in Inr \<lparr>a_spread = high_low_spread, a_price = close (last data)\<rparr>)"

definition arbitrage_get_risk_parameters :: "string \<Rightarrow> real \<Rightarrow> signal_type \<Rightarrow> real \<times> real" where
  "arbitrage_get_risk_parameters smb entry st =
     (let stop_pct = 0.002; target_pct = 0.01
      in if st = BUY then (entry * (1 - stop_pct), entry * (1 + target_pct))
         else (entry * (1 + stop_pct), entry * (1 - target_pct)))"

definition arbitrage_analyze_try :: "nat \<Rightarrow> string \<Rightarrow> bar list \<Rightarrow> market_data \<Rightarrow> pyerror + signal" where
  "arbitrage_analyze_try now smb data md =
     (case arbitrage_calculate_indicators data of
        Inl e \<Rightarrow> Inl e
      | Inr ind \<Rightarrow>
          let latest = last data;
              spread = a_spread ind;
              decision =
                (if fgt spread (Fin arbitrage_min_spread)
                 then (BUY, 0.85, Formatted ''Arbitrage opportunity detected - {spread*100:.2f}% spread'' [fmul spread (Fin 100)])
                 else (HOLD, 0, Plain ''No arbitrage opportunity''));
              st = fst decision; conf = fst (snd decision); rsn = snd (snd decision)
          in if st \<noteq> HOLD
             then let entry = close latest;
                      sl_tp = arbitrage_get_risk_parameters smb entry st
                  in Inr \<lparr>signal_type = st, symbol = smb, confidence = conf,
                          entry_price = entry, stop_loss = fst sl_tp, take_profit = snd sl_tp,
                          position_size = 0, timestamp = now, reason = rsn,
                          indicators = Arbitrage_indicators ind\<rparr>
             else Inr \<lparr>signal_type = HOLD, symbol = smb, confidence = 0,
                       entry_price = close latest, stop_loss = 0, take_profit = 0,
                       position_size = 0, timestamp = now, reason = rsn,
                       indicators = Arbitrage_indicators ind\<rparr>)"

definition arbitrage_analyze :: "nat \<Rightarrow> string \<Rightarrow> bar list \<Rightarrow> market_data \<Rightarrow> signal" where
  "arbitrage_analyze now smb data md =
     (case arbitrage_analyze_try now smb data md of
        Inl e \<Rightarrow> bare_error_signal now smb
      | Inr s \<Rightarrow> s)"

definition arbitrage_validate_signal :: "signal \<Rightarrow> market_data \<Rightarrow> bool" where
  "arbitrage_validate_signal s md = (0.80 \<le> confidence s)"

definition arbitrage_calculate_position_size :: "signal \<Rightarrow> real \<Rightarrow> real \<Rightarrow> real" where
  "arbitrage_calculate_position_size s portfolio_value risk_per_trade =
     min (portfolio_value * 0.15) arbitrage_max_trade_size"


section \<open>Fibonacci strategy (bots/fibonacci\_trader.py)\<close>

abbreviation (input) fibonacci_lookback :: nat where "fibonacci_lookback \<equiv> 50"
abbreviation (input) fibonacci_fib_tolerance :: real where "fibonacci_fib_tolerance \<equiv> 0.005"
abbreviation (input) fibonacci_key_levels :: "real list" where
  "fibonacci_key_levels \<equiv> [0.236, 0.382, 0.500, 0.618, 0.786]"

text \<open>
  \<open>recent['high'].max()\<close> and \<open>recent['low'].min()\<close> are over the last 50 rows, or over
  all rows when there are fewer. The loop over \<open>fib_levels.items()\<close> stops at the first
  level within tolerance (\<open>find\<close>). A NaN mean makes \<open>current_price > sma_20\<close> false, so
  the trend is then \<open>downtrend\<close>.
\<close>

definition fibonacci_calculate_indicators :: "bar list \<Rightarrow> pyerror + fibonacci_indicators" where
  "fibonacci_calculate_indicators data =
     (if data = [] then Inl IndexError
      else let recent = tail fibonacci_lookback data;
               hi = Max (set (map high recent));
               lo = Min (set (map low recent));
               current_price = close (last data);
               d = hi - lo;
               fib_levels = map (\<lambda>level. (level, hi - (d * level))) fibonacci_key_levels;
               hit = find (\<lambda>lp. flt (fdiv (Fin \<bar>current_price - snd lp\<bar>) (Fin current_price))
                                     (Fin fibonacci_fib_tolerance)) fib_levels;
               at_fib_level = (hit \<noteq> None);
               fib_level = map_option fst hit;
               sma_20 = rolling_mean 20 (map (\<lambda>b. Fin (close b)) data);
               trend = (if fgt (Fin current_price) sma_20 then ''uptrend'' else ''downtrend'')
           in Inr \<lparr>f_at_fib_level = at_fib_level, f_fib_level = fib_level, f_trend = trend,
                   f_fib_levels = fib_levels, f_price = current_price\<rparr>)"

definition fibonacci_get_risk_parameters :: "string \<Rightarrow> real \<Rightarrow> signal_type \<Rightarrow> real \<times> real" where
  "fibonacci_get_risk_parameters smb entry st =
     (let stop_distance = entry * 0.025; target_distance = entry * 0.07
      in if st = BUY then (entry - stop_distance, entry + target_distance)
         else (entry + stop_distance, entry - target_distance))"

text \<open>\<open>fib_level in [0.382, 0.500, 0.618]\<close>; \<open>None\<close> is in no such list.\<close>

definition mid_level :: "real option \<Rightarrow> bool" where
  "mid_level fib_level =
     (case fib_level of None \<Rightarrow> False | Some l \<Rightarrow> l \<in> set [0.382, 0.500, 0.618])"

definition fibonacci_analyze_try :: "nat \<Rightarrow> string \<Rightarrow> bar list \<Rightarrow> market_data \<Rightarrow> pyerror + signal" where
  "fibonacci_analyze_try now smb data md =
     (case fibonacci_calculate_indicators data of
        Inl e \<Rightarrow> Inl e
      | Inr ind \<Rightarrow>
          let latest = last data;
              at_fib_level = f_at_fib_level ind;
              fib_level = f_fib_level ind;
              trend = f_trend ind;
              shown = (case fib_level of None \<Rightarrow> [] | Some l \<Rightarrow> [Fin l]);
              decision =
                (if at_fib_level
                 then (if trend = ''uptrend'' \<and> mid_level fib_level
                       then (BUY, 0.77, Formatted ''Fib {fib_level} retracement in uptrend'' shown)
                       else if trend = ''downtrend'' \<and> mid_level fib_level
                       then (SELL, 0.77, Formatted ''Fib {fib_level} retracement in downtrend'' shown)
                       else (HOLD, 0, Plain ''No Fibonacci signal''))
                 else (HOLD, 0, Plain ''No Fibonacci signal''));
              st = fst decision; conf = fst (snd decision); rsn = snd (snd decision)
          in if st \<noteq> HOLD
             then let entry = close latest;
                      sl_tp = fibonacci_get_risk_parameters smb entry st
                  in Inr \<lparr>signal_type = st, symbol = smb, confidence = conf,
                          entry_price = entry, stop_loss = fst sl_tp, take_profit = snd sl_tp,
                          position_size = 0, timestamp = now, reason = rsn,
                          indicators = Fibonacci_indicators ind\<rparr>
             else Inr \<lparr>signal_type = HOLD, symbol = smb, confidence = 0,
                       entry_price = close latest, stop_loss = 0, take_profit = 0,
                       position_size = 0, timestamp = now, reason = rsn,
                       indicators = Fibonacci_indicators ind\<rparr>)"

definition fibonacci_analyze :: "nat \<Rightarrow> string \<Rightarrow> bar list \<Rightarrow> market_data \<Rightarrow> signal" where
  "fibonacci_analyze now smb data md =
     (case fibonacci_analyze_try now smb data md of
        Inl e \<Rightarrow> create_error_signal now smb (error_message e)
      | Inr s \<Rightarrow> s)"

definition fibonacci_validate_signal :: "signal \<Rightarrow> market_data \<Rightarrow> bool" where
  "fibonacci_validate_signal s md = (0.70 < confidence s)"


section \<open>Mean-reversion strategy (bots/mean\_reversion\_bot.py)\<close>

abbreviation (input) mean_reversion_bb_period :: nat where "mean_reversion_bb_period \<equiv> 20"
abbreviation (input) mean_reversion_bb_std :: real where "mean_reversion_bb_std \<equiv> 2.0"
abbreviation (input) mean_reversion_rsi_period :: nat where "mean_reversion_rsi_period \<equiv> 14"
abbreviation (input) mean_reversion_rsi_oversold :: real where "mean_reversion_rsi_oversold \<equiv> 30"
abbreviation (input) mean_reversion_rsi_overbought :: real where "mean_reversion_rsi_overbought \<equiv> 70"
abbreviation (input) mean_reversion_min_confidence :: real where "mean_reversion_min_confidence \<equiv> 0.70"

definition mean_reversion_calculate_indicators ::
  "bar list \<Rightarrow> pyerror + mean_reversion_indicators" where
  "mean_reversion_calculate_indicators data =
     (if data = [] then Inl IndexError
      else let sma = rolling_mean mean_reversion_bb_period (map (\<lambda>b. Fin (close b)) data);
               std = rolling_std mean_reversion_bb_period (map close data);
               bb_upper = fadd sma (fmul std (Fin mean_reversion_bb_std));
               bb_lower = fsub sma (fmul std (Fin mean_reversion_bb_std));
               rsi = rsi_last mean_reversion_rsi_period (map close data)
           in Inr \<lparr>r_bb_upper = bb_upper, r_bb_middle = sma, r_bb_lower = bb_lower,
                   r_rsi = rsi, r_price = close (last data)\<rparr>)"

definition mean_reversion_get_risk_parameters ::
  "string \<Rightarrow> real \<Rightarrow> signal_type \<Rightarrow> real \<times> real" where
  "mean_reversion_get_risk_parameters smb entry st =
     (let stop_pct = 0.03; target_pct = 0.045
      in if st = BUY then (entry * (1 - stop_pct), entry * (1 + target_pct))
         else (entry * (1 + stop_pct), entry * (1 - target_pct)))"

definition mean_reversion_analyze_try ::
  "nat \<Rightarrow> string \<Rightarrow> bar list \<Rightarrow> market_data \<Rightarrow> pyerror + signal" where
  "mean_reversion_analyze_try now smb data md =
     (case mean_reversion_calculate_indicators data of
        Inl e \<Rightarrow> Inl e
      | Inr ind \<Rightarrow>
          let latest = last data;
              decision =
                (if flt (Fin (close latest)) (r_bb_lower ind) \<and>
                    flt (r_rsi ind) (Fin mean_reversion_rsi_oversold)
                 then (BUY, 0.80, Formatted ''Oversold - RSI: {rsi:.1f}, Below BB lower band'' [r_rsi ind])
                 else if fgt (Fin (close latest)) (r_bb_upper ind) \<and>
                    fgt (r_rsi ind) (Fin mean_reversion_rsi_overbought)
                 then (SELL, 0.80, Formatted ''Overbought - RSI: {rsi:.1f}, Above BB upper band'' [r_rsi ind])
                 else (HOLD, 0, Plain ''No mean reversion signal''));
              st = fst decision; conf = fst (snd decision); rsn = snd (snd decision)
          in if st \<noteq> HOLD
             then let entry = close latest;
                      sl_tp = mean_reversion_get_risk_parameters smb entry st
                  in Inr \<lparr>signal_type = st, symbol = smb, confidence = conf,
                          entry_price = entry, stop_loss = fst sl_tp, take_profit = snd sl_tp,
                          position_size = 0, timestamp = now, reason = rsn,
                          indicators = Mean_reversion_indicators ind\<rparr>
             else Inr (create_hold_signal now smb (close latest) rsn
                         (Mean_reversion_indicators ind)))"

definition mean_reversion_analyze :: "nat \<Rightarrow> string \<Rightarrow> bar list \<Rightarrow> market_data \<Rightarrow> signal" where
  "mean_reversion_analyze now smb data md =
     (case mean_reversion_analyze_try now smb data md of
        Inl e \<Rightarrow> create_hold_signal now smb 0 (Plain (''Error: '' @ error_message e)) No_indicators
      | Inr s \<Rightarrow> s)"

definition mean_reversion_validate_signal :: "signal \<Rightarrow> market_data \<Rightarrow> bool" where
  "mean_reversion_validate_signal s md = (mean_reversion_min_confidence \<le> confidence s)"

definition mean_reversion_calculate_position_size :: "signal \<Rightarrow> real \<Rightarrow> real \<Rightarrow> real" where
  "mean_reversion_calculate_position_size s portfolio_value risk_per_trade =
     (let risk_amount = portfolio_value * risk_per_trade;
          price_risk = \<bar>entry_price s - stop_loss s\<bar>
      in if price_risk = 0 then 0
         else let shares = risk_amount / price_risk
              in min (shares * entry_price s) (portfolio_value * 0.20))"


section \<open>Scalping strategy (bots/scalping\_bot.py)\<close>

abbreviation (input) scalping_ema_fast :: real where "scalping_ema_fast \<equiv> 5"
abbreviation (input) scalping_ema_slow :: real where "scalping_ema_slow \<equiv> 15"

definition scalping_calculate_indicators :: "bar list \<Rightarrow> pyerror + scalping_indicators" where
  "scalping_calculate_indicators data =
     (if data = [] then Inl IndexError
      else let ema_fast = ewm_mean scalping_ema_fast (map close data);
               ema_slow = ewm_mean scalping_ema_slow (map close data);
               momentum = pct_change 5 (map close data)
           in Inr \<lparr>s_ema_fast = ema_fast, s_ema_slow = ema_slow, s_momentum = momentum,
                   s_price = close (last data)\<rparr>)"

definition scalping_get_risk_parameters :: "string \<Rightarrow> real \<Rightarrow> signal_type \<Rightarrow> real \<times> real" where
  "scalping_get_risk_parameters smb entry st =
     (let stop_pct = 0.005; target_pct = 0.01
      in if st = BUY then (entry * (1 - stop_pct), entry * (1 + target_pct))
         else (entry * (1 + stop_pct), entry * (1 - target_pct)))"

definition scalping_analyze_try :: "nat \<Rightarrow> string \<Rightarrow> bar list \<Rightarrow> market_data \<Rightarrow> pyerror + signal" where
  "scalping_analyze_try now smb data md =
     (case scalping_calculate_indicators data of
        Inl e \<Rightarrow> Inl e
      | Inr ind \<Rightarrow>
          let latest = last data;
              decision =
                (if fgt (s_ema_fast ind) (s_ema_slow ind) \<and> fgt (s_momentum ind) (Fin 0)
                 then (BUY, 0.70, Plain ''Fast EMA crossed above slow EMA with positive momentum'')
                 else if flt (s_ema_fast ind) (s_ema_slow ind) \<and> flt (s_momentum ind) (Fin 0)
                 then (SELL, 0.70, Plain ''Fast EMA crossed below slow EMA with negative momentum'')
                 else (HOLD, 0, Plain ''No scalp setup''));
              st = fst decision; conf = fst (snd decision); rsn = snd (snd decision)
          in if st \<noteq> HOLD
             then let entry = close latest;
                      sl_tp = scalping_get_risk_parameters smb entry st
                  in Inr \<lparr>signal_type = st, symbol = smb, confidence = conf,
                          entry_price = entry, stop_loss = fst sl_tp, take_profit = snd sl_tp,
                          position_size = 0, timestamp = now, reason = rsn,
                          indicators = Scalping_indicators ind\<rparr>
             else Inr \<lparr>signal_type = HOLD, symbol = smb, confidence = 0,
                       entry_price = close latest, stop_loss = 0, take_profit = 0,
                       position_size = 0, timestamp = now, reason = rsn,
                       indicators = Scalping_indicators ind\<rparr>)"

definition scalping_analyze :: "nat \<Rightarrow> string \<Rightarrow> bar list \<Rightarrow> market_data \<Rightarrow> signal" where
  "scalping_analyze now smb data md =
     (case scalping_analyze_try now smb data md of
        Inl e \<Rightarrow> bare_error_signal now smb
      | Inr s \<Rightarrow> s)"

definition scalping_validate_signal :: "signal \<Rightarrow> market_data \<Rightarrow> bool" where
  "scalping_validate_signal s md = (0.65 \<le> confidence s)"

definition scalping_calculate_position_size :: "signal \<Rightarrow> real \<Rightarrow> real \<Rightarrow> real" where
  "scalping_calculate_position_size s portfolio_value risk_per_trade =
     min (portfolio_value * 0.10) 10000"


section \<open>News strategy (bots/news\_sentinel\_bot.py)\<close>

abbreviation (input) news_sentiment_threshold :: real where "news_sentiment_threshold \<equiv> 0.6"
abbreviation (input) news_volume_spike_threshold :: real where "news_volume_spike_threshold \<equiv> 2.0"

definition news_calculate_indicators :: "bar list \<Rightarrow> pyerror + news_indicators" where
  "news_calculate_indicators data =
     (if data = [] then Inl IndexError
      else let avg_volume = rolling_mean 20 (map (\<lambda>b. Fin (volume b)) data);
               current_volume = volume (last data);
               volume_ratio = (if fgt avg_volume (Fin 0)
                               then fdiv (Fin current_volume) avg_volume else Fin 1);
               price_change = pct_change 5 (map close data)
           in Inr \<lparr>n_volume_ratio = volume_ratio, n_price_change = price_change,
                   n_price = close (last data)\<rparr>)"

definition news_get_risk_parameters :: "string \<Rightarrow> real \<Rightarrow> signal_type \<Rightarrow> real \<times> real" where
  "news_get_risk_parameters smb entry st =
     (let stop_pct = 0.03; target_pct = 0.06
      in if st = BUY then (entry * (1 - stop_pct), entry * (1 + target_pct))
         else (entry * (1 + stop_pct), entry * (1 - target_pct)))"

definition news_analyze_try :: "nat \<Rightarrow> string \<Rightarrow> bar list \<Rightarrow> market_data \<Rightarrow> pyerror + signal" where
  "news_analyze_try now smb data md =
     (case news_calculate_indicators data of
        Inl e \<Rightarrow> Inl e
      | Inr ind \<Rightarrow>
          let latest = last data;
              sentiment = (case md ''news_sentiment'' of None \<Rightarrow> 0 | Some v \<Rightarrow> v);
              volume_spike = n_volume_ratio ind;
              decision =
                (if news_sentiment_threshold < sentiment \<and>
                    fgt volume_spike (Fin news_volume_spike_threshold)
                 then (BUY, 0.75, Formatted ''Positive news sentiment ({sentiment:.2f}) with {volume_spike:.1f}x volume'' [Fin sentiment, volume_spike])
                 else if sentiment < - news_sentiment_threshold \<and>
                    fgt volume_spike (Fin news_volume_spike_threshold)
                 then (SELL, 0.75, Formatted ''Negative news sentiment ({sentiment:.2f}) with {volume_spike:.1f}x volume'' [Fin sentiment, volume_spike])
                 else (HOLD, 0, Plain ''No news catalyst''));
              st = fst decision; conf = fst (snd decision); rsn = snd (snd decision)
          in if st \<noteq> HOLD
             then let entry = close latest;
                      sl_tp = news_get_risk_parameters smb entry st
                  in Inr \<lparr>signal_type = st, symbol = smb, confidence = conf,
                          entry_price = entry, stop_loss = fst sl_tp, take_profit = snd sl_tp,
                          position_size = 0, timestamp = now, reason = rsn,
                          indicators = News_indicators ind\<rparr>
             else Inr \<lparr>signal_type = HOLD, symbol = smb, confidence = 0,
                       entry_price = close latest, stop_loss = 0, take_profit = 0,
                       position_size = 0, timestamp = now, reason = rsn,
                       indicators = News_indicators ind\<rparr>)"

definition news_analyze :: "nat \<Rightarrow> string \<Rightarrow> bar list \<Rightarrow> market_data \<Rightarrow> signal" where
  "news_analyze now smb data md =
     (case news_analyze_try now smb data md of
        Inl e \<Rightarrow> bare_error_signal now smb
      | Inr s \<Rightarrow> s)"

definition news_validate_signal :: "signal \<Rightarrow> market_data \<Rightarrow> bool" where
  "news_validate_signal s md = (0.70 \<le> confidence s)"

definition news_calculate_position_size :: "signal \<Rightarrow> real \<Rightarrow> real \<Rightarrow> real" where
  "news_calculate_position_size s portfolio_value risk_per_trade =
     (let risk_amount = portfolio_value * risk_per_trade;
          price_risk = \<bar>entry_price s - stop_loss s\<bar>
      in if price_risk = 0 then 0
         else let shares = risk_amount / price_risk
              in min (shares * entry_price s) (portfolio_value * 0.20))"


section \<open>Pattern-recognition strategy (bots/pattern\_recognition\_bot.py)\<close>

definition pattern_calculate_indicators :: "bar list \<Rightarrow> pyerror + real" where
  "pattern_calculate_indicators data =
     (if data = [] then Inl IndexError else Inr (close (last data)))"

definition pattern_get_risk_parameters :: "string \<Rightarrow> real \<Rightarrow> signal_type \<Rightarrow> real \<times> real" where
  "pattern_get_risk_parameters smb entry st = (entry * 0.98, entry * 1.05)"

definition pattern_analyze_try :: "nat \<Rightarrow> string \<Rightarrow> bar list \<Rightarrow> market_data \<Rightarrow> pyerror + signal" where
  "pattern_analyze_try now smb data md =
     (case pattern_calculate_indicators data of
        Inl e \<Rightarrow> Inl e
      | Inr ind \<Rightarrow>
          Inr \<lparr>signal_type = HOLD, symbol = smb, confidence = 0,
                entry_price = close (last data), stop_loss = 0, take_profit = 0,
                position_size = 0, timestamp = now, reason = Plain ''Signal logic here'',
                indicators = Pattern_indicators ind\<rparr>)"

definition pattern_analyze :: "nat \<Rightarrow> string \<Rightarrow> bar list \<Rightarrow> market_data \<Rightarrow> signal" where
  "pattern_analyze now smb data md =
     (case pattern_analyze_try now smb data md of
        Inl e \<Rightarrow> create_error_signal now smb ''Error''
      | Inr s \<Rightarrow> s)"

definition pattern_validate_signal :: "signal \<Rightarrow> market_data \<Rightarrow> bool" where
  "pattern_validate_signal s md = (0.7 < confidence s)"


section \<open>The strategies as one family\<close>

datatype strategy =
    MomentumBot | GridTradingBot | CryptoArbitrageBot | FibonacciTrader
  | MeanReversionBot | ScalpingBot | NewsSentinelBot | PatternRecognitionBot

fun analyze_try :: "strategy \<Rightarrow> nat \<Rightarrow> string \<Rightarrow> bar list \<Rightarrow> market_data \<Rightarrow> pyerror + signal" where
  "analyze_try MomentumBot = momentum_analyze_try"
| "analyze_try GridTradingBot = grid_analyze_try"
| "analyze_try CryptoArbitrageBot = arbitrage_analyze_try"
| "analyze_try FibonacciTrader = fibonacci_analyze_try"
| "analyze_try MeanReversionBot = mean_reversion_analyze_try"
| "analyze_try ScalpingBot = scalping_analyze_try"
| "analyze_try NewsSentinelBot = news_analyze_try"
| "analyze_try PatternRecognitionBot = pattern_analyze_try"

fun analyze :: "strategy \<Rightarrow> nat \<Rightarrow> string \<Rightarrow> bar list \<Rightarrow> market_data \<Rightarrow> signal" where
  "analyze MomentumBot = momentum_analyze"
| "analyze GridTradingBot = grid_analyze"
| "analyze CryptoArbitrageBot = arbitrage_analyze"
| "analyze FibonacciTrader = fibonacci_analyze"
| "analyze MeanReversionBot = mean_reversion_analyze"
| "analyze ScalpingBot = scalping_analyze"
| "analyze NewsSentinelBot = news_analyze"
| "analyze PatternRecognitionBot = pattern_analyze"

fun validate_signal :: "strategy \<Rightarrow> signal \<Rightarrow> market_data \<Rightarrow> bool" where
  "validate_signal MomentumBot = momentum_validate_signal"
| "validate_signal GridTradingBot = grid_validate_signal"
| "validate_signal CryptoArbitrageBot = arbitrage_validate_signal"
| "validate_signal FibonacciTrader = fibonacci_validate_signal"
| "validate_signal MeanReversionBot = mean_reversion_validate_signal"
| "validate_signal ScalpingBot = scalping_validate_signal"
| "validate_signal NewsSentinelBot = news_validate_signal"
| "validate_signal PatternRecognitionBot = pattern_validate_signal"

fun get_risk_parameters :: "strategy \<Rightarrow> string \<Rightarrow> real \<Rightarrow> signal_type \<Rightarrow> real \<times> real" where
  "get_risk_parameters MomentumBot = momentum_get_risk_parameters"
| "get_risk_parameters GridTradingBot = grid_get_risk_parameters"
| "get_risk_parameters CryptoArbitrageBot = arbitrage_get_risk_parameters"
| "get_risk_parameters FibonacciTrader = fibonacci_get_risk_parameters"
| "get_risk_parameters MeanReversionBot = mean_reversion_get_risk_parameters"
| "get_risk_parameters ScalpingBot = scalping_get_risk_parameters"
| "get_risk_parameters NewsSentinelBot = news_get_risk_parameters"
| "get_risk_parameters PatternRecognitionBot = pattern_get_risk_parameters"


text \<open>
  \<open>calculate_position_size\<close>, for the six strategies whose file defines it. The
  Fibonacci and the pattern-recognition strategy inherit it from \<open>BaseBot\<close>, whose
  source is not part of the repository's files.
\<close>

fun calculate_position_size :: "strategy \<Rightarrow> (signal \<Rightarrow> real \<Rightarrow> real \<Rightarrow> real) option" where
  "calculate_position_size MomentumBot = Some momentum_calculate_position_size"
| "calculate_position_size GridTradingBot = Some grid_calculate_position_size"
| "calculate_position_size CryptoArbitrageBot = Some arbitrage_calculate_position_size"
| "calculate_position_size MeanReversionBot = Some mean_reversion_calculate_position_size"
| "calculate_position_size ScalpingBot = Some scalping_calculate_position_size"
| "calculate_position_size NewsSentinelBot = Some news_calculate_position_size"
| "calculate_position_size FibonacciTrader = None"
| "calculate_position_size PatternRecognitionBot = None"

text \<open>The confidence each strategy hard-codes for its non-Hold signals (none for the pattern strategy, which only holds).\<close>

fun non_hold_confidence :: "strategy \<Rightarrow> real" where
  "non_hold_confidence MomentumBot = 0.75"
| "non_hold_confidence GridTradingBot = 0.70"
| "non_hold_confidence CryptoArbitrageBot = 0.85"
| "non_hold_confidence FibonacciTrader = 0.77"
| "non_hold_confidence MeanReversionBot = 0.80"
| "non_hold_confidence ScalpingBot = 0.70"
| "non_hold_confidence NewsSentinelBot = 0.75"
| "non_hold_confidence PatternRecognitionBot = 0"

text \<open>
  The longest window a strategy is configured with: \<open>breakout_period\<close>,
  \<open>range_detection_period\<close>, \<open>lookback\<close>, \<open>bb_period\<close>, \<open>ema_slow\<close>, the 20-row
  volume window of the news strategy; the arbitrage and the pattern strategy read the
  latest row only.
\<close>

fun min_lookback :: "strategy \<Rightarrow> nat" where
  "min_lookback MomentumBot = momentum_breakout_period"
| "min_lookback GridTradingBot = grid_range_detection_period"
| "min_lookback CryptoArbitrageBot = 1"
| "min_lookback FibonacciTrader = fibonacci_lookback"
| "min_lookback MeanReversionBot = mean_reversion_bb_period"
| "min_lookback ScalpingBot = 15"
| "min_lookback NewsSentinelBot = 20"
| "min_lookback PatternRecognitionBot = 1"

text \<open>
  The reason each \<open>except\<close> branch writes for the exception \<open>e\<close> it caught:
  \<^verbatim>\<open>f"Error: {e}"\<close> (momentum, mean reversion),
  \<^verbatim>\<open>_create_error_signal(symbol, str(e))\<close> with its \<^verbatim>\<open>f"Error: {error}"\<close> (Fibonacci),
  \<^verbatim>\<open>_create_error_signal(symbol, "Error")\<close> (pattern recognition), and the literal
  \<^verbatim>\<open>"Error"\<close> of the bare \<open>except:\<close> of the grid, arbitrage, scalping and news strategies,
  which says nothing about the exception.
\<close>

fun except_reason :: "strategy \<Rightarrow> pyerror \<Rightarrow> reason" where
  "except_reason MomentumBot e = Plain (''Error: '' @ error_message e)"
| "except_reason GridTradingBot e = Plain ''Error''"
| "except_reason CryptoArbitrageBot e = Plain ''Error''"
| "except_reason FibonacciTrader e = Plain (''Error: '' @ error_message e)"
| "except_reason MeanReversionBot e = Plain (''Error: '' @ error_message e)"
| "except_reason ScalpingBot e = Plain ''Error''"
| "except_reason NewsSentinelBot e = Plain ''Error''"
| "except_reason PatternRecognitionBot e = Plain ''Error: Error''"

text \<open>
  What every \<open>try\<close> block returns when it does not raise: the latest close as entry
  price; for Hold, confidence, stop and target 0; otherwise the strategy's confidence
  and its risk parameters at that entry price.
\<close>

definition well_shaped ::
  "(real \<Rightarrow> signal_type \<Rightarrow> real \<times> real) \<Rightarrow> real \<Rightarrow> real \<Rightarrow> signal \<Rightarrow> bool" where
  "well_shaped risk c price s =
     (entry_price s = price \<and>
      (if signal_type s = HOLD
       then confidence s = 0 \<and> stop_loss s = 0 \<and> take_profit s = 0
       else confidence s = c \<and> stop_loss s = fst (risk price (signal_type s)) \<and>
            take_profit s = snd (risk price (signal_type s))))"

text \<open>
  The signal of the \<open>except\<close> branch of strategy \<open>b\<close> for the exception \<open>e\<close>: Hold,
  every number 0, and the reason that branch writes.
\<close>

definition fault_hold :: "strategy \<Rightarrow> pyerror \<Rightarrow> signal \<Rightarrow> bool" where
  "fault_hold b e s =
     (signal_type s = HOLD \<and> confidence s = 0 \<and> entry_price s = 0 \<and>
      stop_loss s = 0 \<and> take_profit s = 0 \<and> reason s = except_reason b e)"


section \<open>Sample data and the backtest (app.py)\<close>

text \<open>
  \<open>generate_sample_data\<close> and \<open>run_backtest\<close> draw from Python's process-wide random
  source, which the program never seeds. The values it returns are an input of the
  model, one field per call site: \<open>base_price\<close> is \<open>random.uniform(50, 500)\<close>,
  \<open>change i\<close> the \<open>random.uniform(-0.05, 0.05)\<close> of loop index \<open>i\<close>, \<open>high_factor k\<close>,
  \<open>low_factor k\<close>, \<open>close_factor k\<close> and \<open>volume_draw k\<close> the draws for row \<open>k\<close>, and
  \<open>exit_factor k\<close> the \<open>random.uniform(0.98, 1.05)\<close> of the \<open>k\<close>-th simulated trade.
\<close>

record rng =
  base_price :: real
  change :: "nat \<Rightarrow> real"
  high_factor :: "nat \<Rightarrow> real"
  low_factor :: "nat \<Rightarrow> real"
  close_factor :: "nat \<Rightarrow> real"
  volume_draw :: "nat \<Rightarrow> int"
  exit_factor :: "nat \<Rightarrow> real"

text \<open>Every draw lies in the range its call names.\<close>

definition rng_ok :: "rng \<Rightarrow> bool" where
  "rng_ok r =
     (50 \<le> base_price r \<and> base_price r \<le> 500 \<and>
      (\<forall>i. - 0.05 \<le> change r i \<and> change r i \<le> 0.05) \<and>
      (\<forall>k. 1.0 \<le> high_factor r k \<and> high_factor r k \<le> 1.03) \<and>
      (\<forall>k. 0.97 \<le> low_factor r k \<and> low_factor r k \<le> 1.0) \<and>
      (\<forall>k. 0.98 \<le> close_factor r k \<and> close_factor r k \<le> 1.02) \<and>
      (\<forall>k. 1000000 \<le> volume_draw r k \<and> volume_draw r k \<le> 5000000) \<and>
      (\<forall>k. 0.98 \<le> exit_factor r k \<and> exit_factor r k \<le> 1.05))"

text \<open>
  \<^verbatim>\<open>
  prices = [base_price]
  for i in range(1, days):
      change = random.uniform(-0.05, 0.05)
      new_price = prices[-1] * (1 + change)
      prices.append(new_price)
  \<close>
\<close>

definition sample_prices :: "rng \<Rightarrow> nat \<Rightarrow> real list" where
  "sample_prices r days =
     foldl (\<lambda>prices i. prices @ [last prices * (1 + change r i)]) [base_price r] [1..<days]"

text \<open>
  \<open>dates\<close> has \<open>days\<close> entries ending today and \<open>prices\<close> has at least one, so the
  \<open>DataFrame\<close> constructor raises ValueError for \<open>days = 0\<close> (columns of different
  lengths). Dates are day numbers.
\<close>

definition generate_sample_data :: "rng \<Rightarrow> int \<Rightarrow> string \<Rightarrow> nat \<Rightarrow> pyerror + bar list" where
  "generate_sample_data r today smb days =
     (if days = 0 then Inl ValueError
      else let prices = sample_prices r days
           in Inr (map (\<lambda>k. \<lparr>date = today - int (days - 1 - k),
                              open_price = prices ! k,
                              high = prices ! k * high_factor r k,
                              low = prices ! k * low_factor r k,
                              close = prices ! k * close_factor r k,
                              volume = real_of_int (volume_draw r k)\<rparr>) [0..<days]))"

record trade =
  entry_date :: int
  trade_type :: signal_type
  trade_entry_price :: real
  exit_price :: real
  pnl_percent :: fl

text \<open>
  The signal of backtest step \<open>i\<close>: \<open>bot.analyze(symbol, data.iloc[:i], {})\<close>, at the
  time \<open>clock i\<close> of that call.
\<close>

definition window_signal :: "strategy \<Rightarrow> (nat \<Rightarrow> nat) \<Rightarrow> string \<Rightarrow> bar list \<Rightarrow> nat \<Rightarrow> signal" where
  "window_signal strat clock smb data i = analyze strat (clock i) smb (take i data) Map.empty"

text \<open>
  One pass of the loop body over the state (trades, equity curve). The exit draw of a
  trade is the next unused one: as many draws are used as trades are booked.
\<close>

definition backtest_step ::
  "strategy \<Rightarrow> (nat \<Rightarrow> nat) \<Rightarrow> string \<Rightarrow> bar list \<Rightarrow> (nat \<Rightarrow> real) \<Rightarrow>
   trade list \<times> fl list \<Rightarrow> nat \<Rightarrow> trade list \<times> fl list" where
  "backtest_step strat clock smb data exits st i =
     (let sg = window_signal strat clock smb data i
      in if signal_type sg \<noteq> HOLD
         then let entry = entry_price sg;
                  exit_p = entry * exits (length (fst st));
                  pnl = fmul (fdiv (Fin (exit_p - entry)) (Fin entry)) (Fin 100)
              in (fst st @ [\<lparr>entry_date = date (data ! i), trade_type = signal_type sg,
                             trade_entry_price = entry, exit_price = exit_p,
                             pnl_percent = pnl\<rparr>],
                  snd st @ [fmul (last (snd st)) (fadd (Fin 1) (fdiv pnl (Fin 100)))])
         else st)"

text \<open>\<open>for i in range(20, len(data))\<close>, from no trades and the starting capital 10000.\<close>

definition backtest ::
  "strategy \<Rightarrow> (nat \<Rightarrow> nat) \<Rightarrow> string \<Rightarrow> bar list \<Rightarrow> (nat \<Rightarrow> real) \<Rightarrow> trade list \<times> fl list" where
  "backtest strat clock smb data exits =
     foldl (backtest_step strat clock smb data exits) ([], [Fin 10000]) [20..<length data]"

text \<open>
  \<open>run_backtest\<close> up to the end of its loop: the full trade log and equity curve, from
  which the report takes its counts and its last 10 trades and 50 equity points.
\<close>

definition run_backtest ::
  "strategy \<Rightarrow> (nat \<Rightarrow> nat) \<Rightarrow> rng \<Rightarrow> int \<Rightarrow> string \<Rightarrow> nat \<Rightarrow> pyerror + trade list \<times> fl list" where
  "run_backtest strat clock r today smb days =
     (case generate_sample_data r today smb days of
        Inl e \<Rightarrow> Inl e
      | Inr data \<Rightarrow> Inr (backtest strat clock smb data (exit_factor r)))"

text \<open>A sample that is finite and strictly positive.\<close>

fun fpos :: "fl \<Rightarrow> bool" where
  "fpos (Fin x) = (0 < x)"
| "fpos PInf = False"
| "fpos NInf = False"
| "fpos NaN = False"

text \<open>
  The equity curve as the running product over the trade log: each sample after the
  first is its predecessor times \<open>1 + pnl_percent / 100\<close> of the trade booked with it.
\<close>

definition compounds :: "trade list \<Rightarrow> fl list \<Rightarrow> bool" where
  "compounds ts cv =
     (\<forall>k<length ts. cv ! Suc k =
        fmul (cv ! k) (fadd (Fin 1) (fdiv (pnl_percent (ts ! k)) (Fin 100))))"

text \<open>What holds of the loop state (trades, equity curve) before and after every step.\<close>

definition equity_invariant :: "trade list \<times> fl list \<Rightarrow> bool" where
  "equity_invariant st =
     (length (snd st) = length (fst st) + 1 \<and> hd (snd st) = Fin 10000 \<and>
      compounds (fst st) (snd st) \<and> list_all fpos (snd st))"

text \<open>What two runs over one series share whatever the exit draws are.\<close>

definition trade_entry :: "trade \<Rightarrow> int \<times> signal_type \<times> real" where
  "trade_entry t = (entry_date t, trade_type t, trade_entry_price t)"


section \<open>Concrete inputs\<close>

text \<open>A bar whose close is 0 while its high is above its low.\<close>

definition zero_close_bar :: bar where
  "zero_close_bar = \<lparr>date = 0, open_price = 0, high = 1, low = 0, close = 0, volume = 1\<rparr>"

text \<open>A bar that closes on the 0.5 retracement of its own range.\<close>

definition mid_range_bar :: bar where
  "mid_range_bar = \<lparr>date = 0, open_price = 150, high = 200, low = 100, close = 150, volume = 1000\<rparr>"

text \<open>A bar with a 2 percent spread between high and low.\<close>

definition spread_bar :: bar where
  "spread_bar = \<lparr>date = 0, open_price = 100, high = 102, low = 100, close = 100, volume = 1000\<rparr>"

text \<open>The synthetic 100-bar series of closes \<open>100 * 1.005^n\<close>, each bar flat at its close.\<close>

definition geometric_close :: "nat \<Rightarrow> real" where
  "geometric_close n = 100 * 1.005 ^ n"

definition geometric_series :: "bar list" where
  "geometric_series =
     map (\<lambda>n. \<lparr>date = int n, open_price = geometric_close n, high = geometric_close n,
                low = geometric_close n, close = geometric_close n, volume = 1000000\<rparr>)
         [0..<100]"

text \<open>
  Random draws that are all in range: a base price of 100 that never changes, every
  high 2 percent above it, every exit at 2 percent profit.
\<close>

definition spread_rng :: rng where
  "spread_rng = \<lparr>base_price = 100, change = (\<lambda>i. 0), high_factor = (\<lambda>k. 1.02),
                 low_factor = (\<lambda>k. 1), close_factor = (\<lambda>k. 1),
                 volume_draw = (\<lambda>k. 1000000), exit_factor = (\<lambda>k. 1.02)\<rparr>"

text \<open>The bar of day \<open>k\<close> of 22 that \<open>generate_sample_data\<close> builds from these draws.\<close>

definition spread_day :: "int \<Rightarrow> nat \<Rightarrow> bar" where
  "spread_day today k =
     \<lparr>date = today - int (21 - k), open_price = 100, high = 102, low = 100, close = 100,
      volume = 1000000\<rparr>"


section \<open>What every try block returns\<close>

subsection \<open>Shape of what each try block returns\<close>

lemma momentum_shape:
  assumes "momentum_analyze_try now smb data md = Inr s"
  shows "data \<noteq> [] \<and> well_shaped (momentum_get_risk_parameters smb) 0.75 (close (last data)) s"
proof -
  from assms obtain ind where ci: "momentum_calculate_indicators data = Inr ind"
    by (auto simp: momentum_analyze_try_def split: sum.splits)
  have ne: "data \<noteq> []"
    using ci by (auto simp: momentum_calculate_indicators_def split: if_splits)
  show ?thesis
    using assms ne
    by (auto simp: momentum_analyze_try_def ci well_shaped_def create_hold_signal_def Let_def
        split: if_splits)
qed

lemma grid_shape:
  assumes "grid_analyze_try now smb data md = Inr s"
  shows "data \<noteq> [] \<and> well_shaped (grid_get_risk_parameters smb) 0.70 (close (last data)) s"
proof -
  from assms obtain ind where ci: "grid_calculate_indicators data = Inr ind"
    by (auto simp: grid_analyze_try_def split: sum.splits)
  have ne: "data \<noteq> []"
    using ci by (auto simp: grid_calculate_indicators_def split: if_splits)
  show ?thesis
    using assms ne
    by (auto simp: grid_analyze_try_def ci well_shaped_def Let_def split: if_splits)
qed

lemma arbitrage_shape:
  assumes "arbitrage_analyze_try now smb data md = Inr s"
  shows "data \<noteq> [] \<and> well_shaped (arbitrage_get_risk_parameters smb) 0.85 (close (last data)) s"
proof -
  from assms obtain ind where ci: "arbitrage_calculate_indicators data = Inr ind"
    by (auto simp: arbitrage_analyze_try_def split: sum.splits)
  have ne: "data \<noteq> []"
    using ci by (auto simp: arbitrage_calculate_indicators_def split: if_splits)
  show ?thesis
    using assms ne
    by (auto simp: arbitrage_analyze_try_def ci well_shaped_def Let_def split: if_splits)
qed

lemma fibonacci_shape:
  assumes "fibonacci_analyze_try now smb data md = Inr s"
  shows "data \<noteq> [] \<and> well_shaped (fibonacci_get_risk_parameters smb) 0.77 (close (last data)) s"
proof -
  from assms obtain ind where ci: "fibonacci_calculate_indicators data = Inr ind"
    by (auto simp: fibonacci_analyze_try_def split: sum.splits)
  have ne: "data \<noteq> []"
    using ci by (auto simp: fibonacci_calculate_indicators_def split: if_splits)
  show ?thesis
    using assms ne
    by (auto simp: fibonacci_analyze_try_def ci well_shaped_def Let_def split: if_splits)
qed

lemma mean_reversion_shape:
  assumes "mean_reversion_analyze_try now smb data md = Inr s"
  shows "data \<noteq> [] \<and>
         well_shaped (mean_reversion_get_risk_parameters smb) 0.80 (close (last data)) s"
proof -
  from assms obtain ind where ci: "mean_reversion_calculate_indicators data = Inr ind"
    by (auto simp: mean_reversion_analyze_try_def split: sum.splits)
  have ne: "data \<noteq> []"
    using ci by (auto simp: mean_reversion_calculate_indicators_def split: if_splits)
  show ?thesis
    using assms ne
    by (auto simp: mean_reversion_analyze_try_def ci well_shaped_def create_hold_signal_def
        Let_def split: if_splits)
qed

lemma scalping_shape:
  assumes "scalping_analyze_try now smb data md = Inr s"
  shows "data \<noteq> [] \<and> well_shaped (scalping_get_risk_parameters smb) 0.70 (close (last data)) s"
proof -
  from assms obtain ind where ci: "scalping_calculate_indicators data = Inr ind"
    by (auto simp: scalping_analyze_try_def split: sum.splits)
  have ne: "data \<noteq> []"
    using ci by (auto simp: scalping_calculate_indicators_def split: if_splits)
  show ?thesis
    using assms ne
    by (auto simp: scalping_analyze_try_def ci well_shaped_def Let_def split: if_splits)
qed

lemma news_shape:
  assumes "news_analyze_try now smb data md = Inr s"
  shows "data \<noteq> [] \<and> well_shaped (news_get_risk_parameters smb) 0.75 (close (last data)) s"
proof -
  from assms obtain ind where ci: "news_calculate_indicators data = Inr ind"
    by (auto simp: news_analyze_try_def split: sum.splits)
  have ne: "data \<noteq> []"
    using ci by (auto simp: news_calculate_indicators_def split: if_splits)
  show ?thesis
    using assms ne
    by (auto simp: news_analyze_try_def ci well_shaped_def Let_def split: if_splits)
qed

lemma pattern_shape:
  assumes "pattern_analyze_try now smb data md = Inr s"
  shows "data \<noteq> [] \<and> well_shaped (pattern_get_risk_parameters smb) 0 (close (last data)) s"
  using assms
  by (auto simp: pattern_analyze_try_def pattern_calculate_indicators_def well_shaped_def
      split: if_splits)



lemma analyze_try_shape:
  assumes "analyze_try b now smb data md = Inr s"
  shows "data \<noteq> [] \<and>
         well_shaped (get_risk_parameters b smb) (non_hold_confidence b) (close (last data)) s"
  using assms
  by (cases b)
     (auto dest: momentum_shape grid_shape arbitrage_shape fibonacci_shape
        mean_reversion_shape scalping_shape news_shape pattern_shape)

text \<open>The empty frame is the one input on which a try block raises.\<close>

lemma analyze_try_empty: "analyze_try b now smb [] md = Inl IndexError"
  by (cases b)
     (simp_all add: momentum_analyze_try_def momentum_calculate_indicators_def
        grid_analyze_try_def grid_calculate_indicators_def
        arbitrage_analyze_try_def arbitrage_calculate_indicators_def
        fibonacci_analyze_try_def fibonacci_calculate_indicators_def
        mean_reversion_analyze_try_def mean_reversion_calculate_indicators_def
        scalping_analyze_try_def scalping_calculate_indicators_def
        news_analyze_try_def news_calculate_indicators_def
        pattern_analyze_try_def pattern_calculate_indicators_def)
lemma momentum_try_total:
  assumes "data \<noteq> []"
  shows "\<exists>s. momentum_analyze_try now smb data md = Inr s"
proof -
  have "\<exists>ind. momentum_calculate_indicators data = Inr ind"
    unfolding momentum_calculate_indicators_def using assms
    by (simp only: if_False Let_def) blast
  then obtain ind where ci: "momentum_calculate_indicators data = Inr ind" ..
  show ?thesis
    by (simp add: momentum_analyze_try_def ci Let_def)
qed

lemma grid_try_total:
  assumes "data \<noteq> []"
  shows "\<exists>s. grid_analyze_try now smb data md = Inr s"
proof -
  have "\<exists>ind. grid_calculate_indicators data = Inr ind"
    unfolding grid_calculate_indicators_def using assms
    by (simp only: if_False Let_def) blast
  then obtain ind where ci: "grid_calculate_indicators data = Inr ind" ..
  show ?thesis
    by (simp add: grid_analyze_try_def ci Let_def)
qed

lemma arbitrage_try_total:
  assumes "data \<noteq> []"
  shows "\<exists>s. arbitrage_analyze_try now smb data md = Inr s"
proof -
  have "\<exists>ind. arbitrage_calculate_indicators data = Inr ind"
    unfolding arbitrage_calculate_indicators_def using assms
    by (simp only: if_False Let_def) blast
  then obtain ind where ci: "arbitrage_calculate_indicators data = Inr ind" ..
  show ?thesis
    by (simp add: arbitrage_analyze_try_def ci Let_def)
qed

lemma fibonacci_try_total:
  assumes "data \<noteq> []"
  shows "\<exists>s. fibonacci_analyze_try now smb data md = Inr s"
proof -
  have "\<exists>ind. fibonacci_calculate_indicators data = Inr ind"
    unfolding fibonacci_calculate_indicators_def using assms
    by (simp only: if_False Let_def) blast
  then obtain ind where ci: "fibonacci_calculate_indicators data = Inr ind" ..
  show ?thesis
    by (simp add: fibonacci_analyze_try_def ci Let_def)
qed

lemma mean_reversion_try_total:
  assumes "data \<noteq> []"
  shows "\<exists>s. mean_reversion_analyze_try now smb data md = Inr s"
proof -
  have "\<exists>ind. mean_reversion_calculate_indicators data = Inr ind"
    unfolding mean_reversion_calculate_indicators_def using assms
    by (simp only: if_False Let_def) blast
  then obtain ind where ci: "mean_reversion_calculate_indicators data = Inr ind" ..
  show ?thesis
    by (simp add: mean_reversion_analyze_try_def ci Let_def)
qed

lemma scalping_try_total:
  assumes "data \<noteq> []"
  shows "\<exists>s. scalping_analyze_try now smb data md = Inr s"
proof -
  have "\<exists>ind. scalping_calculate_indicators data = Inr ind"
    unfolding scalping_calculate_indicators_def using assms
    by (simp only: if_False Let_def) blast
  then obtain ind where ci: "scalping_calculate_indicators data = Inr ind" ..
  show ?thesis
    by (simp add: scalping_analyze_try_def ci Let_def)
qed

lemma news_try_total:
  assumes "data \<noteq> []"
  shows "\<exists>s. news_analyze_try now smb data md = Inr s"
proof -
  have "\<exists>ind. news_calculate_indicators data = Inr ind"
    unfolding news_calculate_indicators_def using assms
    by (simp only: if_False Let_def) blast
  then obtain ind where ci: "news_calculate_indicators data = Inr ind" ..
  show ?thesis
    by (simp add: news_analyze_try_def ci Let_def)
qed


lemma pattern_try_total: "data \<noteq> [] \<Longrightarrow> \<exists>s. pattern_analyze_try now smb data md = Inr s"
  by (simp add: pattern_analyze_try_def pattern_calculate_indicators_def)

lemma analyze_try_total:
  assumes "data \<noteq> []"
  shows "\<exists>s. analyze_try b now smb data md = Inr s"
  using assms
  by (cases b)
     (simp_all add: momentum_try_total grid_try_total arbitrage_try_total fibonacci_try_total
        mean_reversion_try_total scalping_try_total news_try_total pattern_try_total)

text \<open>How \<open>analyze\<close> follows from its try block: the except branch, or the block's signal.\<close>

lemma analyze_Inl:
  assumes "analyze_try b now smb data md = Inl e"
  shows "fault_hold b e (analyze b now smb data md)"
  using assms
  by (cases b; cases e)
     (simp_all add: fault_hold_def momentum_analyze_def grid_analyze_def arbitrage_analyze_def
        fibonacci_analyze_def mean_reversion_analyze_def scalping_analyze_def news_analyze_def
        pattern_analyze_def create_hold_signal_def create_error_signal_def
        bare_error_signal_def)

lemma analyze_Inr:
  assumes "analyze_try b now smb data md = Inr s"
  shows "analyze b now smb data md = s"
  using assms
  by (cases b)
     (simp_all add: momentum_analyze_def grid_analyze_def arbitrage_analyze_def
        fibonacci_analyze_def mean_reversion_analyze_def scalping_analyze_def news_analyze_def
        pattern_analyze_def)


lemma analyze_cases:
  obtains (fault) e where "analyze_try b now smb data md = Inl e"
      and "fault_hold b e (analyze b now smb data md)"
  | (signal) "analyze_try b now smb data md = Inr (analyze b now smb data md)"
      and "data \<noteq> []"
      and "well_shaped (get_risk_parameters b smb) (non_hold_confidence b) (close (last data))
             (analyze b now smb data md)"
proof (cases "analyze_try b now smb data md")
  case (Inl e)
  then show ?thesis using analyze_Inl fault by blast
next
  case (Inr s)
  then show ?thesis using analyze_Inr [OF Inr] analyze_try_shape [OF Inr] signal by simp
qed

section \<open>Claims about single signals\<close>


lemma pattern_always_holds: "signal_type (analyze PatternRecognitionBot now smb data md) = HOLD"
  by (simp add: pattern_analyze_def pattern_analyze_try_def pattern_calculate_indicators_def
      create_error_signal_def)


text \<open>
  C1, as amended. For every strategy and every input \<open>analyze\<close> returns a signal. Among
  the series whose rows carry numeric open, high, low, close and volume values, its try
  block raises on the empty series and on no other: NaN and division by zero are
  values of the float arithmetic, raise nothing and are not converted into anything.
  When the block raises, the signal is Hold with confidence, entry, stop and target 0
  and the reason of the strategy's \<open>except\<close> branch; when it does not, the signal
  returned is the block's own, whatever values its indicators have.
\<close>

theorem analyze_fail_safe:
  "((\<exists>e. analyze_try b now smb data md = Inl e) \<longleftrightarrow> data = []) \<and>
   (\<forall>e. analyze_try b now smb data md = Inl e \<longrightarrow>
      signal_type (analyze b now smb data md) = HOLD \<and>
      confidence (analyze b now smb data md) = 0 \<and>
      entry_price (analyze b now smb data md) = 0 \<and>
      stop_loss (analyze b now smb data md) = 0 \<and>
      take_profit (analyze b now smb data md) = 0 \<and>
      reason (analyze b now smb data md) = except_reason b e) \<and>
   (data \<noteq> [] \<longrightarrow> analyze_try b now smb data md = Inr (analyze b now smb data md))"
proof (intro conjI allI impI)
  show "(\<exists>e. analyze_try b now smb data md = Inl e) \<longleftrightarrow> data = []"
  proof
    assume "\<exists>e. analyze_try b now smb data md = Inl e"
    then show "data = []"
      using analyze_try_total [of data b now smb md] by fastforce
  next
    assume "data = []"
    then show "\<exists>e. analyze_try b now smb data md = Inl e"
      using analyze_try_empty by blast
  qed
next
  fix e
  assume "analyze_try b now smb data md = Inl e"
  then have "fault_hold b e (analyze b now smb data md)"
    by (rule analyze_Inl)
  then show "signal_type (analyze b now smb data md) = HOLD"
    and "confidence (analyze b now smb data md) = 0"
    and "entry_price (analyze b now smb data md) = 0"
    and "stop_loss (analyze b now smb data md) = 0"
    and "take_profit (analyze b now smb data md) = 0"
    and "reason (analyze b now smb data md) = except_reason b e"
    by (simp_all add: fault_hold_def)
next
  assume "data \<noteq> []"
  then obtain s where "analyze_try b now smb data md = Inr s"
    using analyze_try_total by blast
  then show "analyze_try b now smb data md = Inr (analyze b now smb data md)"
    using analyze_Inr by simp
qed

text \<open>
  C1 on the empty series, for a strategy that writes the exception into the reason and
  for one with a bare \<open>except:\<close>, and on a one-bar series.
\<close>

theorem analyze_fail_safe_witness:
  "analyze_try MomentumBot 0 ''AAPL'' [] Map.empty = Inl IndexError \<and>
   signal_type (analyze MomentumBot 0 ''AAPL'' [] Map.empty) = HOLD \<and>
   confidence (analyze MomentumBot 0 ''AAPL'' [] Map.empty) = 0 \<and>
   entry_price (analyze MomentumBot 0 ''AAPL'' [] Map.empty) = 0 \<and>
   stop_loss (analyze MomentumBot 0 ''AAPL'' [] Map.empty) = 0 \<and>
   take_profit (analyze MomentumBot 0 ''AAPL'' [] Map.empty) = 0 \<and>
   reason (analyze MomentumBot 0 ''AAPL'' [] Map.empty) =
     Plain ''Error: single positional indexer is out-of-bounds'' \<and>
   analyze_try GridTradingBot 0 ''AAPL'' [] Map.empty = Inl IndexError \<and>
   reason (analyze GridTradingBot 0 ''AAPL'' [] Map.empty) = Plain ''Error'' \<and>
   [spread_bar] \<noteq> [] \<and>
   analyze_try CryptoArbitrageBot 0 ''BTC'' [spread_bar] Map.empty =
     Inr (analyze CryptoArbitrageBot 0 ''BTC'' [spread_bar] Map.empty)"
proof -
  have m: "analyze_try MomentumBot 0 ''AAPL'' [] Map.empty = Inl IndexError"
    by (rule analyze_try_empty)
  have g: "analyze_try GridTradingBot 0 ''AAPL'' [] Map.empty = Inl IndexError"
    by (rule analyze_try_empty)
  show ?thesis
    using analyze_fail_safe [of MomentumBot 0 "''AAPL''" "[]" Map.empty]
      analyze_fail_safe [of GridTradingBot 0 "''AAPL''" "[]" Map.empty]
      analyze_fail_safe [of CryptoArbitrageBot 0 "''BTC''" "[spread_bar]" Map.empty] m g
    by simp
qed

text \<open>
  C1 as stated fails: a division by zero is not converted into a Hold signal. On a bar
  that closes at 0 with its high above its low the arbitrage strategy computes the
  spread \<open>(high - low) / close\<close>, which is infinite, and returns a Buy signal with
  confidence 0.85 whose reason reports the spread.
\<close>

theorem division_by_zero_buys_counterexample:
  "arbitrage_calculate_indicators [zero_close_bar] = Inr \<lparr>a_spread = PInf, a_price = 0\<rparr> \<and>
   signal_type (analyze CryptoArbitrageBot 0 ''BTC'' [zero_close_bar] Map.empty) = BUY \<and>
   confidence (analyze CryptoArbitrageBot 0 ''BTC'' [zero_close_bar] Map.empty) = 0.85 \<and>
   reason (analyze CryptoArbitrageBot 0 ''BTC'' [zero_close_bar] Map.empty) =
     Formatted ''Arbitrage opportunity detected - {spread*100:.2f}% spread'' [PInf]"
  by (simp add: arbitrage_analyze_def arbitrage_analyze_try_def
      arbitrage_calculate_indicators_def zero_close_bar_def fgt_def finf_def Let_def)


subsection \<open>The strategies on the concrete bars\<close>



lemma fibonacci_indicators_mid_range_bar:
  "fibonacci_calculate_indicators [mid_range_bar] =
     Inr \<lparr>f_at_fib_level = True, f_fib_level = Some 0.5, f_trend = ''downtrend'',
          f_fib_levels = [(0.236, 176.4), (0.382, 161.8), (0.5, 150), (0.618, 138.2),
                          (0.786, 121.4)],
          f_price = 150\<rparr>"
  by (simp add: fibonacci_calculate_indicators_def mid_range_bar_def tail_def rolling_mean_def
      fgt_def Let_def del: map_option_eq_Some find_None_iff find_None_iff2)
     (rule exI [of _ "1 / 2"], simp)

lemma fibonacci_on_mid_range_bar:
  "signal_type (analyze FibonacciTrader now smb [mid_range_bar] md) = SELL \<and>
   entry_price (analyze FibonacciTrader now smb [mid_range_bar] md) = 150"
  by (simp add: fibonacci_analyze_def fibonacci_analyze_try_def
      fibonacci_indicators_mid_range_bar mid_level_def Let_def)
     (simp add: mid_range_bar_def)



text \<open>
  C9. Whenever \<open>analyze\<close> returns a non-Hold signal, the same strategy's
  \<open>validate_signal\<close> accepts it, whatever market context the validation is given.
\<close>

theorem analyze_self_validates:
  assumes "signal_type (analyze b now smb data md) \<noteq> HOLD"
  shows "validate_signal b (analyze b now smb data md) md'"
proof (cases rule: analyze_cases [of b now smb data md])
  case (fault e)
  then show ?thesis
    using assms by (simp add: fault_hold_def)
next
  case signal
  then have "confidence (analyze b now smb data md) = non_hold_confidence b"
    using assms by (simp add: well_shaped_def)
  then show ?thesis
    using assms pattern_always_holds [of now smb data md]
    by (cases b)
       (simp_all add: momentum_validate_signal_def grid_validate_signal_def
          arbitrage_validate_signal_def fibonacci_validate_signal_def
          mean_reversion_validate_signal_def scalping_validate_signal_def
          news_validate_signal_def pattern_validate_signal_def)
qed

theorem analyze_self_validates_witness:
  "signal_type (analyze FibonacciTrader 0 ''AAPL'' [mid_range_bar] Map.empty) \<noteq> HOLD \<and>
   validate_signal FibonacciTrader
     (analyze FibonacciTrader 0 ''AAPL'' [mid_range_bar] Map.empty) Map.empty"
proof -
  have h: "signal_type (analyze FibonacciTrader 0 ''AAPL'' [mid_range_bar] Map.empty) \<noteq> HOLD"
    using fibonacci_on_mid_range_bar [of 0 "''AAPL''" Map.empty] by simp
  show ?thesis
    using h analyze_self_validates [OF h] by simp
qed

text \<open>
  C10. The arbitrage strategy never sells: for every input its signal is Buy or Hold.
\<close>

theorem arbitrage_never_sells:
  "signal_type (analyze CryptoArbitrageBot now smb data md) = BUY \<or>
   signal_type (analyze CryptoArbitrageBot now smb data md) = HOLD"
proof (cases "arbitrage_calculate_indicators data")
  case (Inl e)
  then show ?thesis
    by (simp add: arbitrage_analyze_def arbitrage_analyze_try_def bare_error_signal_def)
next
  case (Inr ind)
  then show ?thesis
    by (simp add: arbitrage_analyze_def arbitrage_analyze_try_def Let_def)
qed

section \<open>Position sizing, short series, and the backtest window\<close>

lemma capped_size_mono:
  fixes pv1 pv2 risk e pr cap :: real
  assumes "0 \<le> risk" "0 \<le> e" "0 \<le> pr" "0 \<le> cap" "pv1 \<le> pv2"
  shows "min (pv1 * risk / pr * e) (pv1 * cap) \<le> min (pv2 * risk / pr * e) (pv2 * cap)"
proof -
  have "0 \<le> risk / pr * e"
    using assms by simp
  then have "pv1 * (risk / pr * e) \<le> pv2 * (risk / pr * e)"
    using assms(5) by (rule mult_right_mono [rotated])
  then have a: "pv1 * risk / pr * e \<le> pv2 * risk / pr * e"
    by (simp add: mult.assoc)
  have b: "pv1 * cap \<le> pv2 * cap"
    using assms(4,5) by (simp add: mult_right_mono)
  show ?thesis
    using a b by (rule min.mono)
qed

lemma momentum_size_mono:
  assumes "0 \<le> risk" "0 \<le> entry_price s" "pv1 \<le> pv2"
  shows "momentum_calculate_position_size s pv1 risk
           \<le> momentum_calculate_position_size s pv2 risk"
proof (cases "\<bar>entry_price s - stop_loss s\<bar> = 0")
  case True
  then show ?thesis
    by (simp add: momentum_calculate_position_size_def)
next
  case False
  show ?thesis
    unfolding momentum_calculate_position_size_def Let_def
    by (simp only: False if_False) (intro capped_size_mono assms abs_ge_zero, simp)
qed

lemma mean_reversion_size_mono:
  assumes "0 \<le> risk" "0 \<le> entry_price s" "pv1 \<le> pv2"
  shows "mean_reversion_calculate_position_size s pv1 risk
           \<le> mean_reversion_calculate_position_size s pv2 risk"
proof (cases "\<bar>entry_price s - stop_loss s\<bar> = 0")
  case True
  then show ?thesis
    by (simp add: mean_reversion_calculate_position_size_def)
next
  case False
  show ?thesis
    unfolding mean_reversion_calculate_position_size_def Let_def
    by (simp only: False if_False) (intro capped_size_mono assms abs_ge_zero, simp)
qed

lemma news_size_mono:
  assumes "0 \<le> risk" "0 \<le> entry_price s" "pv1 \<le> pv2"
  shows "news_calculate_position_size s pv1 risk \<le> news_calculate_position_size s pv2 risk"
proof (cases "\<bar>entry_price s - stop_loss s\<bar> = 0")
  case True
  then show ?thesis
    by (simp add: news_calculate_position_size_def)
next
  case False
  show ?thesis
    unfolding news_calculate_position_size_def Let_def
    by (simp only: False if_False) (intro capped_size_mono assms abs_ge_zero, simp)
qed

lemma fixed_size_mono:
  assumes "pv1 \<le> (pv2 :: real)"
  shows "grid_calculate_position_size s pv1 risk \<le> grid_calculate_position_size s pv2 risk"
    and "arbitrage_calculate_position_size s pv1 risk
           \<le> arbitrage_calculate_position_size s pv2 risk"
    and "scalping_calculate_position_size s pv1 risk
           \<le> scalping_calculate_position_size s pv2 risk"
  unfolding grid_calculate_position_size_def arbitrage_calculate_position_size_def
    scalping_calculate_position_size_def
  using assms by (auto intro!: min.mono)

text \<open>
  C8, as amended. For each of the six strategies that define \<open>calculate_position_size\<close>,
  the size is non-decreasing in the portfolio value for a fixed signal and a fixed
  non-negative risk fraction and entry price. The momentum, mean-reversion and news
  strategies return exactly 0 when entry price and stop coincide. The grid, arbitrage
  and scalping strategies size by a fixed cap and never read the signal.
\<close>

theorem position_size_monotone:
  "(calculate_position_size b = Some f \<and> 0 \<le> risk \<and> 0 \<le> entry_price s \<and> pv1 \<le> pv2
      \<longrightarrow> f s pv1 risk \<le> f s pv2 risk) \<and>
   (calculate_position_size b = Some f \<and>
    (b = MomentumBot \<or> b = MeanReversionBot \<or> b = NewsSentinelBot) \<and>
    entry_price s = stop_loss s \<longrightarrow> f s pv risk = 0) \<and>
   (calculate_position_size b = Some f \<and>
    (b = GridTradingBot \<or> b = CryptoArbitrageBot \<or> b = ScalpingBot)
      \<longrightarrow> f s pv risk = f s' pv risk)"
proof (intro conjI impI)
  assume h: "calculate_position_size b = Some f \<and> 0 \<le> risk \<and> 0 \<le> entry_price s \<and> pv1 \<le> pv2"
  then show "f s pv1 risk \<le> f s pv2 risk"
    by (cases b)
       (auto simp: momentum_size_mono mean_reversion_size_mono news_size_mono fixed_size_mono)
next
  assume "calculate_position_size b = Some f \<and>
    (b = MomentumBot \<or> b = MeanReversionBot \<or> b = NewsSentinelBot) \<and>
    entry_price s = stop_loss s"
  then show "f s pv risk = 0"
    by (auto simp: momentum_calculate_position_size_def
        mean_reversion_calculate_position_size_def news_calculate_position_size_def)
next
  assume "calculate_position_size b = Some f \<and>
    (b = GridTradingBot \<or> b = CryptoArbitrageBot \<or> b = ScalpingBot)"
  then show "f s pv risk = f s' pv risk"
    by (auto simp: grid_calculate_position_size_def arbitrage_calculate_position_size_def
        scalping_calculate_position_size_def)
qed

theorem position_size_monotone_witness:
  "momentum_calculate_position_size
     (analyze CryptoArbitrageBot 0 ''BTC'' [spread_bar] Map.empty) 10000 0.02 = 2500 \<and>
   momentum_calculate_position_size
     (analyze CryptoArbitrageBot 0 ''BTC'' [spread_bar] Map.empty) 20000 0.02 = 5000 \<and>
   momentum_calculate_position_size
     (analyze CryptoArbitrageBot 0 ''BTC'' [spread_bar] Map.empty) 10000 0.02
     \<le> momentum_calculate_position_size
         (analyze CryptoArbitrageBot 0 ''BTC'' [spread_bar] Map.empty) 20000 0.02 \<and>
   entry_price (analyze MomentumBot 0 ''AAPL'' [] Map.empty)
     = stop_loss (analyze MomentumBot 0 ''AAPL'' [] Map.empty) \<and>
   momentum_calculate_position_size (analyze MomentumBot 0 ''AAPL'' [] Map.empty) 10000 0.02 = 0 \<and>
   grid_calculate_position_size (analyze MomentumBot 0 ''AAPL'' [] Map.empty) 10000 0.02
     = grid_calculate_position_size
         (analyze CryptoArbitrageBot 0 ''BTC'' [spread_bar] Map.empty) 10000 0.02"
proof -
  let ?s = "analyze CryptoArbitrageBot 0 ''BTC'' [spread_bar] Map.empty"
  let ?z = "analyze MomentumBot 0 ''AAPL'' [] Map.empty"
  have s: "entry_price ?s = 100" "stop_loss ?s = 99.8"
    by (simp_all add: arbitrage_analyze_def arbitrage_analyze_try_def
        arbitrage_calculate_indicators_def arbitrage_get_risk_parameters_def spread_bar_def
        fgt_def Let_def)
  have z: "entry_price ?z = 0" "stop_loss ?z = 0"
    by (simp_all add: momentum_analyze_def momentum_analyze_try_def
        momentum_calculate_indicators_def create_hold_signal_def)
  have v: "momentum_calculate_position_size ?s 10000 0.02 = 2500"
    "momentum_calculate_position_size ?s 20000 0.02 = 5000"
    unfolding momentum_calculate_position_size_def Let_def s by simp_all
  show ?thesis
    using position_size_monotone
      [of MomentumBot momentum_calculate_position_size "0.02" ?s 10000 20000 10000 ?z]
      position_size_monotone
      [of MomentumBot momentum_calculate_position_size "0.02" ?z 10000 20000 10000 ?z]
      position_size_monotone
      [of GridTradingBot grid_calculate_position_size "0.02" ?z 10000 20000 10000 ?s]
      s z v
    by simp
qed

text \<open>
  C8 as stated fails for the grid strategy: on its own fault signal, whose entry price
  and stop are both 0, it still sizes the position at 1000.
\<close>

theorem grid_size_counterexample:
  "calculate_position_size GridTradingBot = Some grid_calculate_position_size \<and>
   entry_price (analyze GridTradingBot 0 ''AAPL'' [] Map.empty)
     = stop_loss (analyze GridTradingBot 0 ''AAPL'' [] Map.empty) \<and>
   grid_calculate_position_size (analyze GridTradingBot 0 ''AAPL'' [] Map.empty) 10000 0.02
     = 1000"
  by (simp add: grid_analyze_def grid_analyze_try_def grid_calculate_indicators_def
      bare_error_signal_def grid_calculate_position_size_def)

subsection \<open>Series shorter than the lookback\<close>

lemma rolling_short:
  assumes "length xs < w"
  shows "rolling_max w xs = NaN" "rolling_min w xs = NaN" "rolling_std w xs = NaN"
  using assms by (simp_all add: rolling_max_def rolling_min_def rolling_std_def)

lemma rolling_mean_short: "length xs < w \<Longrightarrow> rolling_mean w xs = NaN"
  by (simp add: rolling_mean_def)

lemma momentum_short:
  assumes "length data < 20"
  shows "signal_type (momentum_analyze now smb data md) = HOLD"
proof (cases "data = []")
  case True
  then show ?thesis
    by (simp add: momentum_analyze_def momentum_analyze_try_def
        momentum_calculate_indicators_def create_hold_signal_def)
next
  case False
  then show ?thesis
    using assms
    by (simp add: momentum_analyze_def momentum_analyze_try_def
        momentum_calculate_indicators_def create_hold_signal_def rolling_short fgt_def Let_def)
qed

lemma grid_short:
  assumes "length data < 50"
  shows "signal_type (grid_analyze now smb data md) = HOLD"
proof (cases "data = []")
  case True
  then show ?thesis
    by (simp add: grid_analyze_def grid_analyze_try_def grid_calculate_indicators_def
        bare_error_signal_def)
next
  case False
  then show ?thesis
    using assms
    by (simp add: grid_analyze_def grid_analyze_try_def grid_calculate_indicators_def
        rolling_short fgt_def fsub_def Let_def)
qed

lemma mean_reversion_short:
  assumes "length data < 20"
  shows "signal_type (mean_reversion_analyze now smb data md) = HOLD"
proof (cases "data = []")
  case True
  then show ?thesis
    by (simp add: mean_reversion_analyze_def mean_reversion_analyze_try_def
        mean_reversion_calculate_indicators_def create_hold_signal_def)
next
  case False
  then show ?thesis
    using assms
    by (simp add: mean_reversion_analyze_def mean_reversion_analyze_try_def
        mean_reversion_calculate_indicators_def create_hold_signal_def rolling_short
        rolling_mean_short fgt_def fsub_def Let_def)
qed

lemma news_short:
  assumes "length data < 20"
  shows "signal_type (news_analyze now smb data md) = HOLD"
proof (cases "data = []")
  case True
  then show ?thesis
    by (simp add: news_analyze_def news_analyze_try_def news_calculate_indicators_def
        bare_error_signal_def)
next
  case False
  then show ?thesis
    using assms
    by (simp add: news_analyze_def news_analyze_try_def news_calculate_indicators_def
        rolling_mean_short fgt_def Let_def)
qed

lemma scalping_short:
  assumes "length data \<le> 5"
  shows "signal_type (scalping_analyze now smb data md) = HOLD"
proof (cases "data = []")
  case True
  then show ?thesis
    by (simp add: scalping_analyze_def scalping_analyze_try_def scalping_calculate_indicators_def
        bare_error_signal_def)
next
  case False
  then show ?thesis
    using assms
    by (simp add: scalping_analyze_def scalping_analyze_try_def
        scalping_calculate_indicators_def pct_change_def fgt_def Let_def)
qed

lemma empty_holds: "signal_type (analyze b now smb [] md) = HOLD"
  using analyze_Inl [OF analyze_try_empty, of b now smb md] by (simp add: fault_hold_def)

text \<open>
  C4, as amended. A series shorter than the configured window yields Hold for the
  momentum (20), grid (50), mean-reversion (20) and news (20) strategies, and so does
  the empty series for the arbitrage and pattern strategies, which read one row. The
  scalping strategy holds on at most 5 rows and the Fibonacci strategy on the empty
  series; neither guards its configured window of 15 and 50 rows.
\<close>

theorem short_series_holds:
  "(b \<noteq> FibonacciTrader \<and> b \<noteq> ScalpingBot \<and> length data < min_lookback b
      \<longrightarrow> signal_type (analyze b now smb data md) = HOLD) \<and>
   (length data \<le> 5 \<longrightarrow> signal_type (analyze ScalpingBot now smb data md) = HOLD) \<and>
   signal_type (analyze FibonacciTrader now smb [] md) = HOLD"
proof (intro conjI impI)
  assume "b \<noteq> FibonacciTrader \<and> b \<noteq> ScalpingBot \<and> length data < min_lookback b"
  then show "signal_type (analyze b now smb data md) = HOLD"
    using empty_holds [of b now smb md] pattern_always_holds [of now smb data md]
    by (cases b) (simp_all add: momentum_short grid_short mean_reversion_short news_short)
next
  assume "length data \<le> 5"
  then show "signal_type (analyze ScalpingBot now smb data md) = HOLD"
    by (simp add: scalping_short)
next
  show "signal_type (analyze FibonacciTrader now smb [] md) = HOLD"
    by (rule empty_holds)
qed

theorem short_series_holds_witness:
  "length [spread_bar] < min_lookback MomentumBot \<and>
   signal_type (analyze MomentumBot 0 ''AAPL'' [spread_bar] Map.empty) = HOLD \<and>
   length [spread_bar] \<le> 5 \<and>
   signal_type (analyze ScalpingBot 0 ''AAPL'' [spread_bar] Map.empty) = HOLD"
  using short_series_holds [of MomentumBot "[spread_bar]" 0 "''AAPL''" Map.empty]
  by simp

text \<open>
  C4 as stated fails for the Fibonacci strategy: on a single bar, far below its
  lookback of 50, it sells.
\<close>

theorem fibonacci_short_series_counterexample:
  "length [mid_range_bar] < min_lookback FibonacciTrader \<and>
   signal_type (analyze FibonacciTrader 0 ''AAPL'' [mid_range_bar] Map.empty) = SELL"
  using fibonacci_on_mid_range_bar [of 0 "''AAPL''" Map.empty] by simp

text \<open>
  C6. The signal of backtest step \<open>i\<close> depends on the bars before index \<open>i\<close> only: two
  series that agree on them give the same signal.
\<close>

theorem window_signal_no_look_ahead:
  assumes "i \<le> length d1" and "i \<le> length d2" and "\<forall>j<i. d1 ! j = d2 ! j"
  shows "window_signal b clock smb d1 i = window_signal b clock smb d2 i"
proof -
  have "take i d1 = take i d2"
    using assms by (intro nth_take_lemma) simp_all
  then show ?thesis
    by (simp add: window_signal_def)
qed

theorem window_signal_no_look_ahead_witness:
  "(1::nat) \<le> length [spread_bar, zero_close_bar] \<and>
   (1::nat) \<le> length [spread_bar, mid_range_bar] \<and>
   [spread_bar, zero_close_bar] ! 0 = [spread_bar, mid_range_bar] ! 0 \<and>
   window_signal CryptoArbitrageBot (\<lambda>i. i) ''BTC'' [spread_bar, zero_close_bar] 1
     = window_signal CryptoArbitrageBot (\<lambda>i. i) ''BTC'' [spread_bar, mid_range_bar] 1"
  using window_signal_no_look_ahead
    [of 1 "[spread_bar, zero_close_bar]" "[spread_bar, mid_range_bar]" CryptoArbitrageBot
       "\<lambda>i. i" "''BTC''"]
  by simp

section \<open>The momentum strategy on rising closes\<close>

lemma length_diff: "length (diff cs) = length cs"
  by (cases cs) simp_all

lemma consecutive_rising:
  assumes "sorted_wrt (<) (x # xs)"
  shows "\<forall>p \<in> set (zip (x # xs) xs). fst p < snd p"
  using assms
proof (induction xs arbitrary: x)
  case Nil
  then show ?case by simp
next
  case (Cons y ys)
  then show ?case by auto
qed

lemma diff_rising:
  assumes "sorted_wrt (<) cs"
  shows "\<forall>d \<in> set (diff cs). d = NaN \<or> (\<exists>x>0. d = Fin x)"
proof (cases cs)
  case Nil
  then show ?thesis by simp
next
  case (Cons x xs)
  then show ?thesis
    using consecutive_rising [of x xs] assms by auto
qed

lemma const_map: "(\<forall>x \<in> set xs. f x = c) \<Longrightarrow> map f xs = replicate (length xs) c"
  by (induction xs) simp_all

lemma losses_rising:
  assumes "sorted_wrt (<) cs"
  shows "map (\<lambda>d. fneg (if flt d (Fin 0) then d else Fin 0)) (diff cs)
           = replicate (length cs) (Fin 0)"
proof -
  have "\<forall>d \<in> set (diff cs). fneg (if flt d (Fin 0) then d else Fin 0) = Fin 0"
    using diff_rising [OF assms] by auto
  then show ?thesis
    using const_map [of "diff cs" _ "Fin 0"] by (simp add: length_diff)
qed

lemma gains_rising:
  assumes "sorted_wrt (<) cs"
  shows "\<forall>g \<in> set (map (\<lambda>d. if fgt d (Fin 0) then d else Fin 0) (diff cs)). \<exists>x. g = Fin x"
  using diff_rising [OF assms] by (auto simp: fgt_def)

lemma fsum_finite: "(\<forall>g \<in> set gs. \<exists>x. g = Fin x) \<Longrightarrow> \<exists>y. fsum gs = Fin y"
  by (induction gs) auto

lemma fsum_zeros: "fsum (replicate n (Fin 0)) = Fin 0"
  by (induction n) simp_all

text \<open>
  With no falling close the mean loss is 0 and the division \<open>gain / loss\<close> gives an
  infinity or NaN: the RSI is 100 or NaN, never below the overbought threshold.
\<close>

lemma rsi_rising:
  assumes "sorted_wrt (<) cs"
  shows "\<not> flt (rsi_last 14 cs) (Fin 70)"
proof (cases "length cs < 14")
  case True
  then show ?thesis
    by (simp add: rsi_last_def rolling_mean_def length_diff fsub_def Let_def)
next
  case False
  let ?gains = "map (\<lambda>d. if fgt d (Fin 0) then d else Fin 0) (diff cs)"
  let ?losses = "map (\<lambda>d. fneg (if flt d (Fin 0) then d else Fin 0)) (diff cs)"
  have loss: "rolling_mean 14 ?losses = Fin 0"
    using False
    by (simp add: losses_rising [OF assms] rolling_mean_def tail_def fsum_zeros)
  have "\<forall>g \<in> set (tail 14 ?gains). \<exists>x. g = Fin x"
    using gains_rising [OF assms] set_drop_subset [of "length ?gains - 14" ?gains]
    unfolding tail_def by blast
  then obtain y where "fsum (tail 14 ?gains) = Fin y"
    using fsum_finite by blast
  then have gain: "rolling_mean 14 ?gains = Fin (y / 14)"
    using False by (simp add: rolling_mean_def length_diff)
  show ?thesis
    unfolding rsi_last_def Let_def gain loss
    by (simp add: finf_def fsub_def)
qed

lemma momentum_no_buy:
  assumes "sorted_wrt (<) (map close data)"
  shows "signal_type (momentum_analyze now smb data md) \<noteq> BUY"
proof (cases "data = []")
  case True
  then show ?thesis
    by (simp add: momentum_analyze_def momentum_analyze_try_def
        momentum_calculate_indicators_def create_hold_signal_def)
next
  case False
  then show ?thesis
    using rsi_rising [OF assms]
    by (simp add: momentum_analyze_def momentum_analyze_try_def
        momentum_calculate_indicators_def create_hold_signal_def Let_def)
qed

lemma rolling_min_le_last:
  assumes "xs \<noteq> []" and "0 < w"
  shows "rolling_min w xs = NaN \<or> (\<exists>m. rolling_min w xs = Fin m \<and> m \<le> last xs)"
proof (cases "length xs < w")
  case True
  then show ?thesis by (simp add: rolling_min_def)
next
  case False
  have n: "length xs - w < length xs"
    using assms by (cases xs) simp_all
  then have "tail w xs \<noteq> []" and "last (tail w xs) = last xs"
    by (simp_all add: tail_def last_drop)
  then have "last xs \<in> set (tail w xs)"
    using last_in_set by metis
  then have "Min (set (tail w xs)) \<le> last xs"
    by simp
  then show ?thesis
    using False by (simp add: rolling_min_def)
qed

lemma momentum_no_sell:
  assumes "data \<noteq> []" and "low (last data) \<le> close (last data)"
  shows "signal_type (momentum_analyze now smb data md) \<noteq> SELL"
proof -
  have "rolling_min 20 (map low data) = NaN \<or>
      (\<exists>m. rolling_min 20 (map low data) = Fin m \<and> m \<le> last (map low data))"
    using assms(1) by (intro rolling_min_le_last) simp_all
  then have "\<not> flt (Fin (close (last data))) (rolling_min 20 (map low data))"
    using assms by (auto simp: last_map)
  then show ?thesis
    using assms(1)
    by (simp add: momentum_analyze_def momentum_analyze_try_def
        momentum_calculate_indicators_def create_hold_signal_def Let_def)
qed

lemma geometric_rising: "sorted_wrt (<) (map geometric_close [0..<n])"
proof -
  have "sorted_wrt (\<lambda>x y. geometric_close x < geometric_close y) [0..<n]"
    by (rule sorted_wrt_mono_rel [OF _ sorted_wrt_upt]) (simp add: geometric_close_def)
  then show ?thesis
    by (simp add: sorted_wrt_map)
qed

lemma momentum_rising_windows:
  assumes "map close data = map geometric_close [0..<100]"
  shows "signal_type (analyze MomentumBot now smb (take i data) md) \<noteq> BUY"
    and "\<forall>bar \<in> set data. low bar \<le> close bar \<Longrightarrow>
         signal_type (analyze MomentumBot now smb (take i data) md) = HOLD"
proof -
  have "map close (take i data) = take i (map close data)"
    by (simp add: take_map)
  then have "map close (take i data) = take i (map geometric_close [0..<100])"
    by (simp only: assms)
  then have rising: "sorted_wrt (<) (map close (take i data))"
    using geometric_rising [of 100] by (simp add: sorted_wrt_take)
  show nb: "signal_type (analyze MomentumBot now smb (take i data) md) \<noteq> BUY"
    using momentum_no_buy [OF rising] by simp
  assume wf: "\<forall>bar \<in> set data. low bar \<le> close bar"
  show "signal_type (analyze MomentumBot now smb (take i data) md) = HOLD"
  proof (cases "take i data = []")
    case True
    show ?thesis
      unfolding True by (rule empty_holds)
  next
    case False
    then have "last (take i data) \<in> set data"
      using last_in_set in_set_takeD by metis
    then have "low (last (take i data)) \<le> close (last (take i data))"
      using wf by blast
    then have "signal_type (analyze MomentumBot now smb (take i data) md) \<noteq> SELL"
      using momentum_no_sell [OF False] by simp
    then show ?thesis
      using nb by (cases "signal_type (analyze MomentumBot now smb (take i data) md)") simp_all
  qed
qed

lemma geometric_series_closes: "map close geometric_series = map geometric_close [0..<100]"
  by (simp add: geometric_series_def comp_def)

text \<open>
  C5, as amended. On every series whose closes are \<open>100 * 1.005^n\<close> for 100 bars the
  momentum strategy emits no Buy signal at any window, whatever the highs, lows and
  volumes: no close falls, so the RSI is 100 (or undefined) and the not-overbought
  guard rejects every breakout. When each bar's low is at most its close it emits no
  Sell either: every window gives Hold.
\<close>

theorem momentum_on_geometric_series:
  assumes "map close data = map geometric_close [0..<100]"
  shows "signal_type (analyze MomentumBot now smb (take i data) md) \<noteq> BUY \<and>
    ((\<forall>bar \<in> set data. low bar \<le> close bar) \<longrightarrow>
       signal_type (analyze MomentumBot now smb (take i data) md) = HOLD)"
  using momentum_rising_windows [OF assms] by blast

theorem momentum_on_geometric_series_witness:
  "map close geometric_series = map geometric_close [0..<100] \<and>
   list_all (\<lambda>bar. low bar \<le> close bar) geometric_series \<and>
   signal_type (analyze MomentumBot 0 ''AAPL'' (take 60 geometric_series) Map.empty) = HOLD"
proof -
  have wf: "\<forall>bar \<in> set geometric_series. low bar \<le> close bar"
    by (auto simp: geometric_series_def)
  then have wfl: "list_all (\<lambda>bar. low bar \<le> close bar) geometric_series"
    by (simp add: list_all_iff)
  show ?thesis
    using momentum_on_geometric_series [OF geometric_series_closes, of 0 "''AAPL''" 60 Map.empty]
      geometric_series_closes wf wfl
    by blast
qed

text \<open>
  C5 as stated fails: on the synthetic series no window of any length makes the
  momentum strategy buy.
\<close>

theorem geometric_series_no_buy_counterexample:
  "\<not> (\<exists>now smb md i.
        signal_type (analyze MomentumBot now smb (take i geometric_series) md) = BUY)"
  using momentum_rising_windows(1) [OF geometric_series_closes] by blast

section \<open>The backtest\<close>

lemma step_hold:
  assumes "signal_type (window_signal strat clock smb data i) = HOLD"
  shows "backtest_step strat clock smb data exits st i = st"
  using assms by (simp add: backtest_step_def Let_def)

lemma step_trade:
  assumes "signal_type (window_signal strat clock smb data i) \<noteq> HOLD"
  shows "backtest_step strat clock smb data exits st i =
    (fst st @
       [\<lparr>entry_date = date (data ! i),
         trade_type = signal_type (window_signal strat clock smb data i),
         trade_entry_price = entry_price (window_signal strat clock smb data i),
         exit_price = entry_price (window_signal strat clock smb data i) * exits (length (fst st)),
         pnl_percent =
           fmul (fdiv (Fin (entry_price (window_signal strat clock smb data i)
                              * exits (length (fst st))
                            - entry_price (window_signal strat clock smb data i)))
                      (Fin (entry_price (window_signal strat clock smb data i))))
                (Fin 100)\<rparr>],
     snd st @
       [fmul (last (snd st))
          (fadd (Fin 1)
             (fdiv (fmul (fdiv (Fin (entry_price (window_signal strat clock smb data i)
                                       * exits (length (fst st))
                                     - entry_price (window_signal strat clock smb data i)))
                               (Fin (entry_price (window_signal strat clock smb data i))))
                         (Fin 100))
                   (Fin 100)))])"
  using assms by (simp add: backtest_step_def Let_def)

lemma step_same_draw:
  assumes "e1 (length (fst st)) = e2 (length (fst st))"
  shows "backtest_step strat clock smb data e1 st i = backtest_step strat clock smb data e2 st i"
  using assms by (simp add: backtest_step_def Let_def)

subsection \<open>What two runs over the same series share\<close>

lemma runs_agree:
  "map trade_entry (fst (foldl (backtest_step strat clock smb data e1) st0 ixs))
     = map trade_entry (fst (foldl (backtest_step strat clock smb data e2) st0 ixs)) \<and>
   length (snd (foldl (backtest_step strat clock smb data e1) st0 ixs))
     = length (snd (foldl (backtest_step strat clock smb data e2) st0 ixs)) \<and>
   ((\<forall>k<length (fst (foldl (backtest_step strat clock smb data e1) st0 ixs)). e1 k = e2 k)
      \<longrightarrow> foldl (backtest_step strat clock smb data e1) st0 ixs
           = foldl (backtest_step strat clock smb data e2) st0 ixs)"
proof (induction ixs rule: rev_induct)
  case Nil
  show ?case by simp
next
  case (snoc i ixs)
  let ?r1 = "foldl (backtest_step strat clock smb data e1) st0 ixs"
  let ?r2 = "foldl (backtest_step strat clock smb data e2) st0 ixs"
  show ?case
  proof (cases "signal_type (window_signal strat clock smb data i) = HOLD")
    case True
    then show ?thesis
      using snoc.IH by (simp add: step_hold)
  next
    case False
    have len: "length (fst (backtest_step strat clock smb data e1 ?r1 i)) = Suc (length (fst ?r1))"
      by (simp add: step_trade [OF False])
    have ih: "map trade_entry (fst ?r1) = map trade_entry (fst ?r2)"
      using snoc.IH by blast
    have "map trade_entry (fst (backtest_step strat clock smb data e1 ?r1 i))
        = map trade_entry (fst (backtest_step strat clock smb data e2 ?r2 i))"
      by (simp add: step_trade [OF False] ih trade_entry_def)
    moreover have "length (snd (backtest_step strat clock smb data e1 ?r1 i))
        = length (snd (backtest_step strat clock smb data e2 ?r2 i))"
      using snoc.IH by (simp add: step_trade [OF False])
    moreover have "backtest_step strat clock smb data e1 ?r1 i
        = backtest_step strat clock smb data e2 ?r2 i"
      if h: "\<forall>k<length (fst (backtest_step strat clock smb data e1 ?r1 i)). e1 k = e2 k"
    proof -
      have "\<forall>k<length (fst ?r1). e1 k = e2 k" and d: "e1 (length (fst ?r1)) = e2 (length (fst ?r1))"
        using h len by simp_all
      then have "?r1 = ?r2"
        using snoc.IH by blast
      then show ?thesis
        using step_same_draw [of e1 ?r1 e2 strat clock smb data i] d by simp
    qed
    ultimately show ?thesis
      by simp
  qed
qed

text \<open>
  C3, as amended. The backtest takes no seed: its result is a function of the series,
  the strategy, the clock and the values the process-wide random source returns for the
  exit prices. Two runs over the same series always book the same trades as far as
  entry date, direction and entry price go, and equity curves of the same length; they
  yield the same trade log and equity curve whenever they draw the same exit factor for
  each trade they book. Equal draws are sufficient; nothing is said in the other
  direction.
\<close>

theorem backtest_determined_by_draws:
  "map trade_entry (fst (backtest strat clock smb data e1))
     = map trade_entry (fst (backtest strat clock smb data e2)) \<and>
   length (snd (backtest strat clock smb data e1))
     = length (snd (backtest strat clock smb data e2)) \<and>
   ((\<forall>k<length (fst (backtest strat clock smb data e1)). e1 k = e2 k)
      \<longrightarrow> backtest strat clock smb data e1 = backtest strat clock smb data e2)"
  unfolding backtest_def by (rule runs_agree)

subsection \<open>The Fibonacci strategy on a flat series\<close>

lemma fsum_replicate: "fsum (replicate n (Fin x)) = Fin (real n * x)"
  by (induction n) (simp_all add: algebra_simps)

lemma fibonacci_indicators_flat:
  "fibonacci_calculate_indicators (replicate 20 mid_range_bar) =
     Inr \<lparr>f_at_fib_level = True, f_fib_level = Some 0.5, f_trend = ''downtrend'',
          f_fib_levels = [(0.236, 176.4), (0.382, 161.8), (0.5, 150), (0.618, 138.2),
                          (0.786, 121.4)],
          f_price = 150\<rparr>"
  by (simp add: fibonacci_calculate_indicators_def mid_range_bar_def tail_def rolling_mean_def
      fsum_replicate fgt_def Let_def del: map_option_eq_Some find_None_iff find_None_iff2)
     (rule exI [of _ "1 / 2"], simp)

lemma fibonacci_on_flat_window:
  "signal_type (window_signal FibonacciTrader clock smb (replicate 21 mid_range_bar) 20) = SELL \<and>
   entry_price (window_signal FibonacciTrader clock smb (replicate 21 mid_range_bar) 20) = 150"
  by (simp add: window_signal_def fibonacci_analyze_def fibonacci_analyze_try_def
      fibonacci_indicators_flat mid_level_def Let_def)
     (simp add: mid_range_bar_def)

lemma flat_backtest:
  "snd (backtest FibonacciTrader clock smb (replicate 21 mid_range_bar) exits)
     = [Fin 10000, Fin (10000 * exits 0)]"
proof -
  have "[20..<21] = [20::nat]"
    by (simp add: upt_rec)
  then show ?thesis
    using fibonacci_on_flat_window [of clock smb]
    by (simp add: backtest_def backtest_step_def Let_def field_simps)
qed

lemma flat_backtest_trades:
  "length (fst (backtest FibonacciTrader clock smb (replicate 21 mid_range_bar) exits)) = 1"
proof -
  have "[20..<21] = [20::nat]"
    by (simp add: upt_rec)
  then show ?thesis
    using fibonacci_on_flat_window [of clock smb]
    by (simp add: backtest_def backtest_step_def Let_def)
qed

text \<open>
  On 21 flat bars the Fibonacci strategy books one trade, so only the first exit draw is
  used: two runs whose draws agree there and differ afterwards give the same result.
\<close>

theorem backtest_determined_by_draws_witness:
  "length (fst (backtest FibonacciTrader (\<lambda>i. i) ''AAPL'' (replicate 21 mid_range_bar)
      (\<lambda>k. 1.02))) = 1 \<and>
   backtest FibonacciTrader (\<lambda>i. i) ''AAPL'' (replicate 21 mid_range_bar) (\<lambda>k. 1.02)
     = backtest FibonacciTrader (\<lambda>i. i) ''AAPL'' (replicate 21 mid_range_bar)
         (\<lambda>k. if k = 0 then 1.02 else 1)"
proof -
  have n: "length (fst (backtest FibonacciTrader (\<lambda>i. i) ''AAPL''
      (replicate 21 mid_range_bar) (\<lambda>k. 1.02))) = 1"
    by (rule flat_backtest_trades)
  have h: "\<forall>k<length (fst (backtest FibonacciTrader (\<lambda>i. i) ''AAPL''
      (replicate 21 mid_range_bar) (\<lambda>k. 1.02))).
      (\<lambda>k. 1.02 :: real) k = (\<lambda>k. if k = 0 then 1.02 else 1) k"
    by (simp add: flat_backtest_trades)
  show ?thesis
    using n h backtest_determined_by_draws
      [of FibonacciTrader "\<lambda>i. i" "''AAPL''" "replicate 21 mid_range_bar" "\<lambda>k. 1.02"
          "\<lambda>k. if k = 0 then 1.02 else 1"]
    by blast
qed

text \<open>
  C3 as stated fails: no seed is among the inputs, and two runs over the same series
  with the same strategy differ as soon as the random source returns different exit
  factors, both within the range of \<open>random.uniform(0.98, 1.05)\<close>.
\<close>

theorem backtest_not_reproducible_counterexample:
  "snd (backtest FibonacciTrader (\<lambda>i. i) ''AAPL'' (replicate 21 mid_range_bar) (\<lambda>k. 1))
     = [Fin 10000, Fin 10000] \<and>
   snd (backtest FibonacciTrader (\<lambda>i. i) ''AAPL'' (replicate 21 mid_range_bar) (\<lambda>k. 1.02))
     = [Fin 10000, Fin 10200] \<and>
   backtest FibonacciTrader (\<lambda>i. i) ''AAPL'' (replicate 21 mid_range_bar) (\<lambda>k. 1)
     \<noteq> backtest FibonacciTrader (\<lambda>i. i) ''AAPL'' (replicate 21 mid_range_bar) (\<lambda>k. 1.02)"
proof -
  have a: "snd (backtest FibonacciTrader (\<lambda>i. i) ''AAPL'' (replicate 21 mid_range_bar) (\<lambda>k. 1))
      = [Fin 10000, Fin 10000]"
    by (simp add: flat_backtest)
  have b: "snd (backtest FibonacciTrader (\<lambda>i. i) ''AAPL'' (replicate 21 mid_range_bar)
      (\<lambda>k. 1.02)) = [Fin 10000, Fin 10200]"
    by (simp add: flat_backtest)
  show ?thesis
    using a b by auto
qed

subsection \<open>The generated series\<close>

lemma sample_prices_loop:
  assumes "\<forall>i. 0 < 1 + change r i" and "ps \<noteq> []" and "\<forall>p\<in>set ps. 0 < p"
  shows "length (foldl (\<lambda>prices i. prices @ [last prices * (1 + change r i)]) ps ixs)
           = length ps + length ixs \<and>
         (\<forall>p\<in>set (foldl (\<lambda>prices i. prices @ [last prices * (1 + change r i)]) ps ixs). 0 < p)"
  using assms(2,3)
proof (induction ixs arbitrary: ps)
  case Nil
  then show ?case by simp
next
  case (Cons i ixs)
  have "0 < last ps"
    using Cons.prems by simp
  then have "0 < last ps * (1 + change r i)"
    using assms(1) by (simp add: zero_less_mult_iff)
  then have pos: "\<forall>p\<in>set (ps @ [last ps * (1 + change r i)]). 0 < p"
    using Cons.prems by simp
  have ne: "ps @ [last ps * (1 + change r i)] \<noteq> []"
    by simp
  have step: "foldl (\<lambda>prices i. prices @ [last prices * (1 + change r i)]) ps (i # ixs)
      = foldl (\<lambda>prices i. prices @ [last prices * (1 + change r i)])
          (ps @ [last ps * (1 + change r i)]) ixs"
    by simp
  have len: "length (ps @ [last ps * (1 + change r i)]) + length ixs
      = length ps + length (i # ixs)"
    by simp
  show ?case
    unfolding step len [symmetric] by (rule Cons.IH [OF ne pos])
qed

lemma sample_prices_positive:
  assumes "rng_ok r" and "0 < days"
  shows "length (sample_prices r days) = days" and "\<forall>p\<in>set (sample_prices r days). 0 < p"
proof -
  have c: "\<forall>i. 0 < 1 + change r i"
  proof
    fix i
    have "- 0.05 \<le> change r i"
      using assms(1) by (simp add: rng_ok_def)
    then show "0 < 1 + change r i"
      by simp
  qed
  have b: "0 < base_price r"
    using assms(1) by (simp add: rng_ok_def)
  have "length (sample_prices r days) = length [base_price r] + length [1..<days] \<and>
        (\<forall>p\<in>set (sample_prices r days). 0 < p)"
    unfolding sample_prices_def
    using b by (intro sample_prices_loop c) simp_all
  then show "length (sample_prices r days) = days" and "\<forall>p\<in>set (sample_prices r days). 0 < p"
    using assms(2) by simp_all
qed

lemma generated_closes_positive:
  assumes "rng_ok r" and "0 < days"
  shows "\<exists>data. generate_sample_data r today smb days = Inr data \<and> length data = days \<and>
           (\<forall>b\<in>set data. 0 < close b)"
proof -
  have "0 < sample_prices r days ! k * close_factor r k" if "k < days" for k
  proof -
    have "sample_prices r days ! k \<in> set (sample_prices r days)"
      using that sample_prices_positive(1) [OF assms] by simp
    then have "0 < sample_prices r days ! k"
      using sample_prices_positive(2) [OF assms] by blast
    moreover have "0.98 \<le> close_factor r k"
      using assms(1) by (simp add: rng_ok_def)
    ultimately show ?thesis
      by (simp add: zero_less_mult_iff)
  qed
  then show ?thesis
    using assms(2) by (simp add: generate_sample_data_def Let_def)
qed

subsection \<open>The loop invariant of the equity curve\<close>

lemma traded_at_close:
  assumes "signal_type (analyze b now smb w md) \<noteq> HOLD"
  shows "w \<noteq> [] \<and> entry_price (analyze b now smb w md) = close (last w)"
proof (cases b now smb w md rule: analyze_cases)
  case (fault e)
  then show ?thesis
    using assms by (simp add: fault_hold_def)
next
  case signal
  then show ?thesis
    by (simp add: well_shaped_def)
qed

lemma growth_factor:
  assumes "en \<noteq> 0"
  shows "fadd (Fin 1) (fdiv (fmul (fdiv (Fin (en * u - en)) (Fin en)) (Fin 100)) (Fin 100)) = Fin u"
  using assms by (simp add: field_simps)

lemma compounds_snoc:
  assumes "compounds ts cv" and "length cv = length ts + 1"
    and "e = fmul (last cv) (fadd (Fin 1) (fdiv (pnl_percent t) (Fin 100)))"
  shows "compounds (ts @ [t]) (cv @ [e])"
  unfolding compounds_def
proof (intro allI impI)
  fix k
  assume "k < length (ts @ [t])"
  then consider "k < length ts" | "k = length ts"
    by fastforce
  then show "(cv @ [e]) ! Suc k =
      fmul ((cv @ [e]) ! k) (fadd (Fin 1) (fdiv (pnl_percent ((ts @ [t]) ! k)) (Fin 100)))"
  proof cases
    case 1
    then show ?thesis
      using assms(1,2) by (simp add: compounds_def nth_append)
  next
    case 2
    have "cv \<noteq> []"
      using assms(2) by auto
    then have "last cv = cv ! length ts"
      using assms(2) by (simp add: last_conv_nth)
    then show ?thesis
      using 2 assms(2,3) by (simp add: nth_append)
  qed
qed

lemma step_invariant:
  assumes "equity_invariant st" and "\<forall>b\<in>set data. 0 < close b" and "\<forall>k. 0 < exits k"
  shows "equity_invariant (backtest_step strat clock smb data exits st i)"
proof (cases "signal_type (window_signal strat clock smb data i) = HOLD")
  case True
  then show ?thesis
    using assms(1) by (simp add: step_hold)
next
  case False
  let ?sg = "window_signal strat clock smb data i"
  let ?u = "exits (length (fst st))"
  let ?t = "\<lparr>entry_date = date (data ! i), trade_type = signal_type ?sg,
             trade_entry_price = entry_price ?sg, exit_price = entry_price ?sg * ?u,
             pnl_percent = fmul (fdiv (Fin (entry_price ?sg * ?u - entry_price ?sg))
                                      (Fin (entry_price ?sg))) (Fin 100)\<rparr>"
  let ?e = "fmul (last (snd st)) (fadd (Fin 1) (fdiv (pnl_percent ?t) (Fin 100)))"
  have step: "backtest_step strat clock smb data exits st i = (fst st @ [?t], snd st @ [?e])"
    by (simp add: step_trade [OF False])
  have w: "take i data \<noteq> [] \<and> entry_price ?sg = close (last (take i data))"
    using False traded_at_close [of strat "clock i" smb "take i data" Map.empty]
    by (simp add: window_signal_def)
  then have "last (take i data) \<in> set (take i data)"
    by simp
  then have "last (take i data) \<in> set data"
    by (rule in_set_takeD)
  then have en: "0 < entry_price ?sg"
    using w assms(2) by simp
  have len: "length (snd st) = length (fst st) + 1" and hd: "hd (snd st) = Fin 10000"
    and cmp: "compounds (fst st) (snd st)" and pos: "list_all fpos (snd st)"
    using assms(1) by (simp_all add: equity_invariant_def)
  have ne: "snd st \<noteq> []"
    using len by auto
  then have "fpos (last (snd st))"
    using pos by (simp add: list_all_iff)
  then obtain x where x: "last (snd st) = Fin x" "0 < x"
    by (cases "last (snd st)") simp_all
  have "?e = fmul (Fin x) (Fin ?u)"
    using en x(1) growth_factor [of "entry_price ?sg" ?u] by simp
  then have e: "fpos ?e"
    using x(2) assms(3) by (simp add: zero_less_mult_iff)
  have "compounds (fst st @ [?t]) (snd st @ [?e])"
    by (rule compounds_snoc [OF cmp len]) simp
  moreover have "hd (snd st @ [?e]) = Fin 10000"
    using ne hd by simp
  moreover have "list_all fpos (snd st @ [?e])"
    using pos e by simp
  moreover have "length (snd st @ [?e]) = length (fst st @ [?t]) + 1"
    using len by simp
  ultimately show ?thesis
    unfolding step equity_invariant_def by simp
qed

lemma loop_invariant:
  assumes "equity_invariant st" and "\<forall>b\<in>set data. 0 < close b" and "\<forall>k. 0 < exits k"
  shows "equity_invariant (foldl (backtest_step strat clock smb data exits) st ixs)"
  using assms(1)
proof (induction ixs arbitrary: st)
  case Nil
  then show ?case by simp
next
  case (Cons i ixs)
  then show ?case
    using step_invariant [OF Cons.prems assms(2,3)] by simp
qed

lemma backtest_invariant:
  assumes "\<forall>b\<in>set data. 0 < close b" and "\<forall>k. 0 < exits k"
  shows "equity_invariant (backtest strat clock smb data exits)"
  unfolding backtest_def
  by (rule loop_invariant [OF _ assms]) (simp add: equity_invariant_def compounds_def)

lemma trade_count:
  "length (fst (foldl (backtest_step strat clock smb data exits) st ixs))
     = length (fst st)
       + length (filter (\<lambda>i. signal_type (window_signal strat clock smb data i) \<noteq> HOLD) ixs)"
proof (induction ixs arbitrary: st)
  case Nil
  show ?case by simp
next
  case (Cons i ixs)
  show ?case
  proof (cases "signal_type (window_signal strat clock smb data i) = HOLD")
    case True
    then show ?thesis
      using Cons.IH [of st] by (simp add: step_hold)
  next
    case False
    then show ?thesis
      using Cons.IH [of "backtest_step strat clock smb data exits st i"]
      by (simp add: step_trade [OF False])
  qed
qed

text \<open>
  C7. Every backtest run over generated data, whatever the random draws within their
  ranges, returns a trade log and an equity curve such that: one trade is booked for
  every window with a non-Hold signal; the curve starts at the initial capital 10000;
  each later sample is its predecessor times \<open>1 + pnl_percent / 100\<close> of the trade
  booked with it; the curve has one sample more than there are trades; and every
  sample is a finite, strictly positive number.
\<close>

theorem equity_curve_compounds:
  assumes "rng_ok r" and "0 < days"
  shows "\<exists>data trades curve.
           generate_sample_data r today smb days = Inr data \<and>
           run_backtest strat clock r today smb days = Inr (trades, curve) \<and>
           length trades =
             length (filter (\<lambda>i. signal_type (window_signal strat clock smb data i) \<noteq> HOLD)
                       [20..<length data]) \<and>
           hd curve = Fin 10000 \<and> compounds trades curve \<and>
           length curve = length trades + 1 \<and> list_all fpos curve"
proof -
  obtain data where d: "generate_sample_data r today smb days = Inr data"
    and c: "\<forall>b\<in>set data. 0 < close b"
    using generated_closes_positive [OF assms] by blast
  have "\<forall>k. 0 < exit_factor r k"
  proof
    fix k
    have "0.98 \<le> exit_factor r k"
      using assms(1) by (simp add: rng_ok_def)
    then show "0 < exit_factor r k"
      by simp
  qed
  then have "equity_invariant (backtest strat clock smb data (exit_factor r))"
    using c by (rule backtest_invariant [rotated])
  then have inv: "hd (snd (backtest strat clock smb data (exit_factor r))) = Fin 10000 \<and>
      compounds (fst (backtest strat clock smb data (exit_factor r)))
        (snd (backtest strat clock smb data (exit_factor r))) \<and>
      length (snd (backtest strat clock smb data (exit_factor r)))
        = length (fst (backtest strat clock smb data (exit_factor r))) + 1 \<and>
      list_all fpos (snd (backtest strat clock smb data (exit_factor r)))"
    unfolding equity_invariant_def by blast
  have run: "run_backtest strat clock r today smb days
      = Inr (fst (backtest strat clock smb data (exit_factor r)),
             snd (backtest strat clock smb data (exit_factor r)))"
    by (simp add: run_backtest_def d)
  have cnt: "length (fst (backtest strat clock smb data (exit_factor r))) =
      length (filter (\<lambda>i. signal_type (window_signal strat clock smb data i) \<noteq> HOLD)
                [20..<length data])"
    unfolding backtest_def by (simp add: trade_count)
  show ?thesis
    by (intro exI conjI) (rule d, rule run, rule cnt, (rule inv [THEN conjunct1]
      | rule inv [THEN conjunct2, THEN conjunct1]
      | rule inv [THEN conjunct2, THEN conjunct2, THEN conjunct1]
      | rule inv [THEN conjunct2, THEN conjunct2, THEN conjunct2])+)
qed

subsection \<open>A run with two trades\<close>

lemma flat_prices_loop:
  "foldl (\<lambda>prices i. prices @ [last prices]) (replicate (Suc n) x) ixs
     = replicate (Suc n + length ixs) x"
proof (induction ixs arbitrary: n)
  case Nil
  show ?case by simp
next
  case (Cons i ixs)
  have "replicate (Suc n) x @ [last (replicate (Suc n) x)] = replicate (Suc (Suc n)) x"
    by (simp add: replicate_append_same)
  then show ?case
    using Cons.IH [of "Suc n"] by simp
qed

lemma spread_rng_prices: "sample_prices spread_rng 22 = replicate 22 100"
proof -
  have "sample_prices spread_rng 22
      = foldl (\<lambda>prices i. prices @ [last prices]) (replicate (Suc 0) 100) [1..<22]"
    by (simp add: sample_prices_def spread_rng_def)
  then show ?thesis
    by (simp only: flat_prices_loop) simp
qed

lemma spread_rng_data:
  "generate_sample_data spread_rng today smb 22 = Inr (map (spread_day today) [0..<22])"
  by (simp add: generate_sample_data_def spread_rng_prices spread_day_def Let_def)
     (simp add: spread_rng_def)

lemma arbitrage_on_spread_day:
  assumes "0 < i" and "i \<le> 22"
  shows "signal_type (window_signal CryptoArbitrageBot clock smb
            (map (spread_day today) [0..<22]) i) = BUY \<and>
         entry_price (window_signal CryptoArbitrageBot clock smb
            (map (spread_day today) [0..<22]) i) = 100"
proof -
  have t: "take i (map (spread_day today) [0..<22]) = map (spread_day today) [0..<i]"
    using assms by (simp add: take_map take_upt)
  have n: "map (spread_day today) [0..<i] \<noteq> []"
    using assms by simp
  have l: "last (map (spread_day today) [0..<i]) = spread_day today (i - 1)"
    using assms by (simp add: last_map)
  show ?thesis
    using n
    by (simp add: window_signal_def t arbitrage_analyze_def arbitrage_analyze_try_def
        arbitrage_calculate_indicators_def l spread_day_def fgt_def Let_def)
qed

lemma spread_backtest:
  "backtest CryptoArbitrageBot clock smb (map (spread_day today) [0..<22]) (\<lambda>k. 1.02) =
     ([\<lparr>entry_date = today - 1, trade_type = BUY, trade_entry_price = 100, exit_price = 102,
        pnl_percent = Fin 2\<rparr>,
       \<lparr>entry_date = today, trade_type = BUY, trade_entry_price = 100, exit_price = 102,
        pnl_percent = Fin 2\<rparr>],
      [Fin 10000, Fin 10200, Fin 10404])"
proof -
  have w: "[20..<22] = [20, 21::nat]"
    by (simp add: upt_rec)
  have d: "date (spread_day today 20) = today - 1" "date (spread_day today 21) = today"
    by (simp_all add: spread_day_def)
  show ?thesis
    using arbitrage_on_spread_day [of 20 clock smb today]
      arbitrage_on_spread_day [of 21 clock smb today]
    by (simp add: backtest_def w backtest_step_def d Let_def)
qed

text \<open>
  C7 on a run that books two trades: 22 generated days, the arbitrage strategy buying at
  both windows, each trade closed at 2 percent profit.
\<close>

theorem equity_curve_compounds_witness:
  "rng_ok spread_rng \<and> 0 < (22::nat) \<and>
   run_backtest CryptoArbitrageBot (\<lambda>i. i) spread_rng 0 ''BTC'' 22 =
     Inr ([\<lparr>entry_date = - 1, trade_type = BUY, trade_entry_price = 100, exit_price = 102,
            pnl_percent = Fin 2\<rparr>,
           \<lparr>entry_date = 0, trade_type = BUY, trade_entry_price = 100, exit_price = 102,
            pnl_percent = Fin 2\<rparr>],
          [Fin 10000, Fin 10200, Fin 10404]) \<and>
   compounds
     [\<lparr>entry_date = - 1, trade_type = BUY, trade_entry_price = 100, exit_price = 102,
        pnl_percent = Fin 2\<rparr>,
      \<lparr>entry_date = 0, trade_type = BUY, trade_entry_price = 100, exit_price = 102,
        pnl_percent = Fin 2\<rparr>]
     [Fin 10000, Fin 10200, Fin 10404] \<and>
   list_all fpos [Fin 10000, Fin 10200, Fin 10404]"
proof -
  have ok: "rng_ok spread_rng"
    by (simp add: rng_ok_def spread_rng_def)
  have d: "0 < (22::nat)"
    by simp
  have run: "run_backtest CryptoArbitrageBot (\<lambda>i. i) spread_rng 0 ''BTC'' 22 =
      Inr ([\<lparr>entry_date = - 1, trade_type = BUY, trade_entry_price = 100, exit_price = 102,
             pnl_percent = Fin 2\<rparr>,
            \<lparr>entry_date = 0, trade_type = BUY, trade_entry_price = 100, exit_price = 102,
             pnl_percent = Fin 2\<rparr>],
           [Fin 10000, Fin 10200, Fin 10404])"
    using spread_backtest [of "\<lambda>i. i" "''BTC''" 0]
    by (simp add: run_backtest_def spread_rng_data) (simp add: spread_rng_def)
  show ?thesis
    using ok d run
      equity_curve_compounds [OF ok d, of 0 "''BTC''" CryptoArbitrageBot "\<lambda>i. i"]
    by auto
qed

end
